theory Spec2Isabelle
  imports Complex_Main "HOL-Library.Sublist"
begin

section \<open>Strings as the source's string methods see them\<close>

text \<open>
  Strings are lists of characters. The development covers ASCII text: the character
  classes below are the ASCII part of what \<^verbatim>\<open>str.isspace\<close>, the regular expression
  classes \<^verbatim>\<open>\s\<close> and \<^verbatim>\<open>\w\<close>, \<^verbatim>\<open>str.lower\<close> and \<^verbatim>\<open>str.upper\<close> do.
\<close>

definition is_space :: "char \<Rightarrow> bool" where
  "is_space c \<longleftrightarrow> c \<in> set [CHR '' '', CHR 0x09, CHR 0x0A, CHR 0x0B, CHR 0x0C, CHR 0x0D,
                            CHR 0x1C, CHR 0x1D, CHR 0x1E, CHR 0x1F]"

definition is_digit :: "char \<Rightarrow> bool" where
  "is_digit c \<longleftrightarrow> c \<in> set ''0123456789''"

definition is_upper_char :: "char \<Rightarrow> bool" where
  "is_upper_char c \<longleftrightarrow> c \<in> set ''ABCDEFGHIJKLMNOPQRSTUVWXYZ''"

definition is_lower_char :: "char \<Rightarrow> bool" where
  "is_lower_char c \<longleftrightarrow> c \<in> set ''abcdefghijklmnopqrstuvwxyz''"

definition is_word :: "char \<Rightarrow> bool" where
  "is_word c \<longleftrightarrow> is_upper_char c \<or> is_lower_char c \<or> is_digit c \<or> c = CHR ''_''"

definition lower_char :: "char \<Rightarrow> char" where
  "lower_char c =
     (case map_of (zip ''ABCDEFGHIJKLMNOPQRSTUVWXYZ'' ''abcdefghijklmnopqrstuvwxyz'') c of
        Some d \<Rightarrow> d | None \<Rightarrow> c)"

definition upper_char :: "char \<Rightarrow> char" where
  "upper_char c =
     (case map_of (zip ''abcdefghijklmnopqrstuvwxyz'' ''ABCDEFGHIJKLMNOPQRSTUVWXYZ'') c of
        Some d \<Rightarrow> d | None \<Rightarrow> c)"

definition py_lower :: "string \<Rightarrow> string" where
  "py_lower s = map lower_char s"

definition py_upper :: "string \<Rightarrow> string" where
  "py_upper s = map upper_char s"

definition lstrip :: "string \<Rightarrow> string" where
  "lstrip s = dropWhile is_space s"

definition rstrip :: "string \<Rightarrow> string" where
  "rstrip s = rev (dropWhile is_space (rev s))"

definition strip :: "string \<Rightarrow> string" where
  "strip s = rstrip (lstrip s)"

definition startswith :: "string \<Rightarrow> string \<Rightarrow> bool" where
  "startswith s p \<longleftrightarrow> take (length p) s = p"

definition endswith :: "string \<Rightarrow> string \<Rightarrow> bool" where
  "endswith s p \<longleftrightarrow> length p \<le> length s \<and> drop (length s - length p) s = p"

text \<open>\<^verbatim>\<open>s.strip("'\"")\<close>: both quote characters are removed from both ends.\<close>

definition is_quote :: "char \<Rightarrow> bool" where
  "is_quote c \<longleftrightarrow> c = CHR 0x27 \<or> c = CHR 0x22"

definition strip_quotes :: "string \<Rightarrow> string" where
  "strip_quotes s = rev (dropWhile is_quote (rev (dropWhile is_quote s)))"

text \<open>\<^verbatim>\<open>p in s\<close> and \<^verbatim>\<open>s.split(p, 1)\<close> for a non-empty separator \<open>p\<close>.\<close>

fun contains :: "string \<Rightarrow> string \<Rightarrow> bool" where
  "contains [] p = (p = [])"
| "contains (c # s) p = (startswith (c # s) p \<or> contains s p)"

fun split_once :: "string \<Rightarrow> string \<Rightarrow> (string \<times> string) option" where
  "split_once [] p = (if p = [] then Some ([], []) else None)"
| "split_once (c # s) p =
     (if startswith (c # s) p then Some ([], drop (length p) (c # s))
      else map_option (\<lambda>(l, r). (c # l, r)) (split_once s p))"

text \<open>\<^verbatim>\<open>s.split(',')\<close>: every comma separates, the result is never empty.\<close>

fun split_comma_acc :: "string \<Rightarrow> string \<Rightarrow> string list" where
  "split_comma_acc acc [] = [rev acc]"
| "split_comma_acc acc (c # s) =
     (if c = CHR '','' then rev acc # split_comma_acc [] s else split_comma_acc (c # acc) s)"

definition split_comma :: "string \<Rightarrow> string list" where
  "split_comma s = split_comma_acc [] s"

text \<open>\<^verbatim>\<open>sep.join(xs)\<close>.\<close>

fun join :: "string \<Rightarrow> string list \<Rightarrow> string" where
  "join sep [] = []"
| "join sep [x] = x"
| "join sep (x # y # ys) = x @ sep @ join sep (y # ys)"

section \<open>Errors\<close>

text \<open>
  Every exception the source can raise is a value: the three classes of
  \<^verbatim>\<open>exceptions.py\<close> that the transformer raises, the Python built-in exceptions of the
  parser, and the failures of the columnar backend. Messages are not modelled.
\<close>

datatype error =
    MappingError
  | TransformError
  | ValueError
  | IndexError
  | AttributeError
  | TypeError
  | OverflowError
  | BackendError

section \<open>The lexer: \<^verbatim>\<open>split_args\<close>\<close>

text \<open>
  The loop state of \<^verbatim>\<open>split_args\<close>: the arguments produced so far, the characters of the
  current argument, the two depths (Python integers: they may go negative), the open
  quote character, and the character before the current one (\<^verbatim>\<open>arg_str[i-1]\<close>).
\<close>

record lex_state =
  lex_args :: "string list"
  lex_cur :: string
  depth_paren :: int
  depth_brack :: int
  in_quote :: "char option"
  lex_prev :: "char option"

definition lex_init :: lex_state where
  "lex_init = \<lparr>lex_args = [], lex_cur = [], depth_paren = 0, depth_brack = 0,
               in_quote = None, lex_prev = None\<rparr>"

definition lex_step :: "lex_state \<Rightarrow> char \<Rightarrow> lex_state" where
  "lex_step st ch =
     (case in_quote st of
        Some q \<Rightarrow>
          st\<lparr>lex_cur := lex_cur st @ [ch],
             in_quote := (if ch = q \<and> lex_prev st \<noteq> Some (CHR 0x5C) then None else Some q),
             lex_prev := Some ch\<rparr>
      | None \<Rightarrow>
          if is_quote ch then st\<lparr>in_quote := Some ch, lex_cur := lex_cur st @ [ch], lex_prev := Some ch\<rparr>
          else if ch = CHR ''('' then
            st\<lparr>depth_paren := depth_paren st + 1, lex_cur := lex_cur st @ [ch], lex_prev := Some ch\<rparr>
          else if ch = CHR '')'' then
            st\<lparr>depth_paren := depth_paren st - 1, lex_cur := lex_cur st @ [ch], lex_prev := Some ch\<rparr>
          else if ch = CHR ''['' then
            st\<lparr>depth_brack := depth_brack st + 1, lex_cur := lex_cur st @ [ch], lex_prev := Some ch\<rparr>
          else if ch = CHR '']'' then
            st\<lparr>depth_brack := depth_brack st - 1, lex_cur := lex_cur st @ [ch], lex_prev := Some ch\<rparr>
          else if ch = CHR '','' \<and> depth_paren st = 0 \<and> depth_brack st = 0 then
            st\<lparr>lex_args := lex_args st @ [strip (lex_cur st)], lex_cur := [], lex_prev := Some ch\<rparr>
          else st\<lparr>lex_cur := lex_cur st @ [ch], lex_prev := Some ch\<rparr>)"

fun lex_loop :: "lex_state \<Rightarrow> string \<Rightarrow> lex_state" where
  "lex_loop st [] = st"
| "lex_loop st (ch # s) = lex_loop (lex_step st ch) s"

definition split_args :: "string \<Rightarrow> string list" where
  "split_args arg_str =
     (let st = lex_loop lex_init arg_str
      in if lex_cur st \<noteq> [] then lex_args st @ [strip (lex_cur st)] else lex_args st)"

subsection \<open>Top-level commas, as the specification counts them\<close>

text \<open>
  The specification's reading of the lexer: one left-to-right pass with the parenthesis
  depth, the bracket depth and the current quote character; a comma is top-level when
  both depths are zero and no quote is open. \<open>top_commas\<close> counts these commas and
  \<open>last_segment\<close> is the text after the last of them.
\<close>

type_synonym scan = "int \<times> int \<times> char option \<times> char option"

definition scan_init :: scan where
  "scan_init = (0, 0, None, None)"

fun scan_next :: "scan \<Rightarrow> char \<Rightarrow> scan" where
  "scan_next (dp, db, Some q, pv) ch =
     (dp, db, (if ch = q \<and> pv \<noteq> Some (CHR 0x5C) then None else Some q), Some ch)"
| "scan_next (dp, db, None, pv) ch =
     (if is_quote ch then (dp, db, Some ch, Some ch)
      else if ch = CHR ''('' then (dp + 1, db, None, Some ch)
      else if ch = CHR '')'' then (dp - 1, db, None, Some ch)
      else if ch = CHR ''['' then (dp, db + 1, None, Some ch)
      else if ch = CHR '']'' then (dp, db - 1, None, Some ch)
      else (dp, db, None, Some ch))"

fun is_top_comma :: "scan \<Rightarrow> char \<Rightarrow> bool" where
  "is_top_comma (dp, db, q, pv) ch \<longleftrightarrow> ch = CHR '','' \<and> q = None \<and> dp = 0 \<and> db = 0"

fun top_commas :: "scan \<Rightarrow> string \<Rightarrow> nat" where
  "top_commas sc [] = 0"
| "top_commas sc (ch # s) = (if is_top_comma sc ch then 1 else 0) + top_commas (scan_next sc ch) s"

fun last_segment :: "scan \<Rightarrow> string \<Rightarrow> string \<Rightarrow> string" where
  "last_segment sc acc [] = acc"
| "last_segment sc acc (ch # s) =
     last_segment (scan_next sc ch) (if is_top_comma sc ch then [] else acc @ [ch]) s"

section \<open>Properties of the lexer\<close>

definition scan_of :: "lex_state \<Rightarrow> scan" where
  "scan_of st = (depth_paren st, depth_brack st, in_quote st, lex_prev st)"

lemma scan_of_step: "scan_of (lex_step st ch) = scan_next (scan_of st) ch"
  by (cases "in_quote st") (auto simp: scan_of_def lex_step_def is_quote_def)

lemma args_step:
  "lex_args (lex_step st ch) = (if is_top_comma (scan_of st) ch then lex_args st @ [strip (lex_cur st)] else lex_args st)"
  by (cases "in_quote st") (auto simp: scan_of_def lex_step_def is_quote_def)

lemma cur_step:
  "lex_cur (lex_step st ch) = (if is_top_comma (scan_of st) ch then [] else lex_cur st @ [ch])"
  by (cases "in_quote st") (auto simp: scan_of_def lex_step_def is_quote_def)

lemma length_args_loop:
  "length (lex_args (lex_loop st s)) = length (lex_args st) + top_commas (scan_of st) s"
  by (induction s arbitrary: st) (simp_all add: scan_of_step args_step)

lemma cur_loop: "lex_cur (lex_loop st s) = last_segment (scan_of st) (lex_cur st) s"
  by (induction s arbitrary: st) (simp_all add: scan_of_step cur_step)

lemma dropWhile_id: "xs = [] \<or> \<not> P (hd xs) \<Longrightarrow> dropWhile P xs = xs"
  by (cases xs) auto

lemma lstrip_head: "lstrip s = [] \<or> \<not> is_space (hd (lstrip s))"
  unfolding lstrip_def using hd_dropWhile [of is_space s] by blast

lemma rstrip_last: "rstrip s = [] \<or> \<not> is_space (last (rstrip s))"
  unfolding rstrip_def using hd_dropWhile [of is_space "rev s"] by (auto simp: last_rev)

lemma rstrip_prefix: "\<exists>t. s = rstrip s @ t"
proof -
  have "rev s = takeWhile is_space (rev s) @ dropWhile is_space (rev s)" by simp
  then have "s = rev (dropWhile is_space (rev s)) @ rev (takeWhile is_space (rev s))"
    by (metis rev_append rev_rev_ident)
  then show ?thesis unfolding rstrip_def by blast
qed

lemma rstrip_head: "rstrip s \<noteq> [] \<Longrightarrow> hd (rstrip s) = hd s"
  using rstrip_prefix [of s] by (metis hd_append2)

lemma strip_ends:
  "strip s = [] \<or> (\<not> is_space (hd (strip s)) \<and> \<not> is_space (last (strip s)))"
proof (cases "rstrip (lstrip s) = []")
  case True
  then show ?thesis by (simp add: strip_def)
next
  case False
  then have ne: "lstrip s \<noteq> []" by (auto simp: rstrip_def)
  have "hd (rstrip (lstrip s)) = hd (lstrip s)" using False by (rule rstrip_head)
  moreover have "\<not> is_space (hd (lstrip s))" using lstrip_head [of s] ne by simp
  moreover have "\<not> is_space (last (rstrip (lstrip s)))"
    using rstrip_last [of "lstrip s"] False by simp
  ultimately show ?thesis by (simp add: strip_def)
qed

lemma strip_fixed:
  assumes "t = [] \<or> (\<not> is_space (hd t) \<and> \<not> is_space (last t))"
  shows "strip t = t"
proof (cases "t = []")
  case True
  then show ?thesis by (simp add: strip_def lstrip_def rstrip_def)
next
  case False
  with assms have h: "\<not> is_space (hd t)" and l: "\<not> is_space (last t)" by auto
  from False h have "lstrip t = t" unfolding lstrip_def by (simp add: dropWhile_id)
  moreover from False l have "rstrip t = t"
    unfolding rstrip_def by (simp add: dropWhile_id hd_rev)
  ultimately show ?thesis by (simp add: strip_def)
qed

lemma strip_idem: "strip (strip s) = strip s"
  using strip_ends [of s] by (rule strip_fixed)

lemma args_loop_stripped:
  "\<forall>a \<in> set (lex_args st). strip a = a \<Longrightarrow> \<forall>a \<in> set (lex_args (lex_loop st s)). strip a = a"
proof (induction s arbitrary: st)
  case Nil
  then show ?case by simp
next
  case (Cons ch s)
  have "\<forall>a \<in> set (lex_args (lex_step st ch)). strip a = a"
    using Cons.prems by (simp add: args_step strip_idem)
  then show ?case using Cons.IH by simp
qed

text \<open>
  Claim C7, as the code has it. The number of arguments is the number of top-level
  commas, plus one when some text (white space included) follows the last top-level
  comma: the final \<^verbatim>\<open>if cur:\<close> drops an empty trailing argument. Every produced
  argument is trimmed. No balance condition is needed.
\<close>

theorem split_args_count:
  "length (split_args s) =
     top_commas scan_init s + (if last_segment scan_init [] s = [] then 0 else 1)
   \<and> (\<forall>a \<in> set (split_args s). strip a = a)"
proof -
  have sc: "scan_of lex_init = scan_init" by (simp add: scan_of_def lex_init_def scan_init_def)
  have "\<forall>a \<in> set (lex_args lex_init). strip a = a" by (simp add: lex_init_def)
  then have st: "\<forall>a \<in> set (lex_args (lex_loop lex_init s)). strip a = a"
    by (rule args_loop_stripped)
  have c: "lex_cur (lex_loop lex_init s) = last_segment scan_init [] s"
    using cur_loop [of lex_init s] sc by (simp add: lex_init_def)
  have l: "length (lex_args (lex_loop lex_init s)) = top_commas scan_init s"
    using length_args_loop [of lex_init s] sc by (simp add: lex_init_def)
  show ?thesis using st c l by (simp add: split_args_def Let_def strip_idem)
qed

theorem split_args_count_witness:
  "length (split_args ''f(a,b), 'x,y' '') = 2
   \<and> map strip (split_args ''f(a,b), 'x,y' '') = split_args ''f(a,b), 'x,y' ''"
proof -
  have "length (split_args ''f(a,b), 'x,y' '') =
          top_commas scan_init ''f(a,b), 'x,y' '' +
          (if last_segment scan_init [] ''f(a,b), 'x,y' '' = [] then 0 else 1)"
    and "\<forall>a \<in> set (split_args ''f(a,b), 'x,y' ''). strip a = a"
    using split_args_count [of "''f(a,b), 'x,y' ''"] by blast+
  then show ?thesis
    by (simp add: scan_init_def is_quote_def map_idI)
qed

text \<open>
  The claim as the specification states it fails on a trailing comma: \<^verbatim>\<open>"a,"\<close> is
  well balanced and has one top-level comma, and the lexer returns the single argument
  \<^verbatim>\<open>"a"\<close>, with no empty string after it.
\<close>

theorem split_args_trailing_comma_counterexample:
  "split_args ''a,'' = [''a''] \<and> top_commas scan_init ''a,'' = 1
   \<and> length (split_args ''a,'') \<noteq> 1 + top_commas scan_init ''a,''"
  by (simp add: split_args_def lex_init_def lex_step_def strip_def lstrip_def rstrip_def
      is_space_def is_quote_def scan_init_def)

section \<open>Python values the parser computes with\<close>

text \<open>
  \<^verbatim>\<open>float(s)\<close> on a string: white space is stripped, then an optional sign, then either
  \<^verbatim>\<open>inf\<close>, \<^verbatim>\<open>infinity\<close>, \<^verbatim>\<open>nan\<close> (any case) or a decimal number with an optional
  fraction and exponent; single underscores may separate digits. The decimal is read
  exactly and rounded to the nearest IEEE double, ties to even, as Python does; what is
  too large becomes an infinity. A finite float is kept as the rational number it is. The
  sign of zero is not kept.
\<close>

datatype pyfloat = Finite rat | PosInf | NegInf | NaN

definition digit_val :: "char \<Rightarrow> nat" where
  "digit_val c = (case map_of (zip ''0123456789'' [0, 1, 2, 3, 4, 5, 6, 7, 8, 9]) c of
                    Some n \<Rightarrow> n | None \<Rightarrow> 0)"

definition digits_val :: "string \<Rightarrow> nat" where
  "digits_val ds = foldl (\<lambda>n c. 10 * n + digit_val c) 0 ds"

text \<open>
  A digit part \<^verbatim>\<open>digit (["_"] digit)*\<close> at the head of a string: its digits, without the
  underscores, and the rest of the string.
\<close>

fun digitpart_more :: "string \<Rightarrow> string \<Rightarrow> string \<times> string" where
  "digitpart_more acc (c # d # s) =
     (if is_digit c then digitpart_more (acc @ [c]) (d # s)
      else if c = CHR ''_'' \<and> is_digit d then digitpart_more (acc @ [d]) s
      else (acc, c # d # s))"
| "digitpart_more acc [c] = (if is_digit c then (acc @ [c], []) else (acc, [c]))"
| "digitpart_more acc [] = (acc, [])"

definition digitpart :: "string \<Rightarrow> (string \<times> string) option" where
  "digitpart s = (case s of c # r \<Rightarrow> if is_digit c then Some (digitpart_more [c] r) else None
                  | [] \<Rightarrow> None)"

definition exponent :: "string \<Rightarrow> int option" where
  "exponent s =
     (case s of
        [] \<Rightarrow> Some 0
      | e # r \<Rightarrow>
          if e = CHR ''e'' \<or> e = CHR ''E'' then
            (let neg = (case r of c # _ \<Rightarrow> c = CHR ''-'' | [] \<Rightarrow> False);
                 r' = (case r of c # t \<Rightarrow> if c = CHR ''-'' \<or> c = CHR ''+'' then t else r | [] \<Rightarrow> r)
             in case digitpart r' of
                  Some (ds, []) \<Rightarrow> Some (if neg then - int (digits_val ds) else int (digits_val ds))
                | _ \<Rightarrow> None)
          else None)"

definition scale10 :: "rat \<Rightarrow> int \<Rightarrow> rat" where
  "scale10 r e = (if 0 \<le> e then r * 10 ^ nat e else r / 10 ^ nat (- e))"

definition decimal :: "string \<Rightarrow> rat option" where
  "decimal s =
     (case digitpart s of
        Some (ip, r) \<Rightarrow>
          (case r of
             c # r1 \<Rightarrow>
               if c = CHR ''.'' then
                 (case digitpart r1 of
                    Some (fp, r2) \<Rightarrow>
                      map_option (scale10 (of_nat (digits_val ip)
                                           + of_nat (digits_val fp) / 10 ^ length fp)) (exponent r2)
                  | None \<Rightarrow> map_option (scale10 (of_nat (digits_val ip))) (exponent r1))
               else map_option (scale10 (of_nat (digits_val ip))) (exponent r)
           | [] \<Rightarrow> Some (of_nat (digits_val ip)))
      | None \<Rightarrow>
          (case s of
             c # r1 \<Rightarrow>
               if c = CHR ''.'' then
                 (case digitpart r1 of
                    Some (fp, r2) \<Rightarrow>
                      map_option (scale10 (of_nat (digits_val fp) / 10 ^ length fp)) (exponent r2)
                  | None \<Rightarrow> None)
               else None
           | [] \<Rightarrow> None))"

text \<open>
  Rounding to a double. For a positive rational, \<open>floor_log2\<close> is the exponent of its
  leading bit; the unit in the last place is 52 binary places below it, and never below
  the subnormal unit \<open>2 ^ - 1074\<close>.
\<close>

fun bit_length :: "nat \<Rightarrow> nat" where
  "bit_length n = (if n = 0 then 0 else Suc (bit_length (n div 2)))"

definition pow2 :: "int \<Rightarrow> rat" where
  "pow2 k = (if 0 \<le> k then 2 ^ nat k else 1 / 2 ^ nat (- k))"

definition floor_log2 :: "rat \<Rightarrow> int" where
  "floor_log2 r =
     (let d = int (bit_length (nat (fst (quotient_of r)))) - int (bit_length (nat (snd (quotient_of r))))
      in if pow2 d \<le> r then d else d - 1)"

definition round_half_even :: "rat \<Rightarrow> int" where
  "round_half_even x =
     (let f = \<lfloor>x\<rfloor>; d = x - of_int f
      in if d < 1 / 2 then f else if 1 / 2 < d then f + 1 else if even f then f else f + 1)"

definition to_double :: "rat \<Rightarrow> pyfloat" where
  "to_double r =
     (if r = 0 then Finite 0
      else let a = \<bar>r\<bar>;
               u = pow2 (max (floor_log2 a) (- 1022) - 52);
               v = of_int (round_half_even (a / u)) * u
           in if pow2 1024 \<le> v then (if r < 0 then NegInf else PosInf)
              else Finite (if r < 0 then - v else v))"

definition py_float :: "string \<Rightarrow> pyfloat option" where
  "py_float s =
     (let t = strip s;
          neg = (case t of c # _ \<Rightarrow> c = CHR ''-'' | [] \<Rightarrow> False);
          u = (case t of c # r \<Rightarrow> if c = CHR ''-'' \<or> c = CHR ''+'' then r else t | [] \<Rightarrow> t)
      in if py_lower u = ''inf'' \<or> py_lower u = ''infinity'' then Some (if neg then NegInf else PosInf)
         else if py_lower u = ''nan'' then Some NaN
         else map_option (\<lambda>r. to_double (if neg then - r else r)) (decimal u))"

text \<open>\<^verbatim>\<open>int(x)\<close> on a float truncates toward zero and raises on infinities and NaN.\<close>

definition py_int_of_float :: "pyfloat \<Rightarrow> error + int" where
  "py_int_of_float x =
     (case x of
        Finite r \<Rightarrow> Inr (if 0 \<le> r then \<lfloor>r\<rfloor> else \<lceil>r\<rceil>)
      | PosInf \<Rightarrow> Inl OverflowError
      | NegInf \<Rightarrow> Inl OverflowError
      | NaN \<Rightarrow> Inl ValueError)"

text \<open>\<^verbatim>\<open>int(float(s))\<close>, as the source writes it for counts and precisions.\<close>

definition int_float :: "string \<Rightarrow> error + int" where
  "int_float s = (case py_float s of None \<Rightarrow> Inl ValueError | Some x \<Rightarrow> py_int_of_float x)"

definition is_number :: "string \<Rightarrow> bool" where
  "is_number s \<longleftrightarrow> py_float s \<noteq> None"

text \<open>\<^verbatim>\<open>str(n)\<close> for an integer, used where the source formats one into a string.\<close>

fun str_nat :: "nat \<Rightarrow> string" where
  "str_nat n = (if n < 10 then [''0123456789'' ! n]
                else str_nat (n div 10) @ [''0123456789'' ! (n mod 10)])"

definition str_int :: "int \<Rightarrow> string" where
  "str_int i = (if i < 0 then CHR ''-'' # str_nat (nat (- i)) else str_nat (nat i))"

section \<open>Expressions of the columnar backend\<close>

text \<open>
  The source builds expression objects of its columnar backend and hands them back to
  it. An expression is modelled as the tree of backend calls that built it. Column
  references, literals, aliases, the operators and the conditional are constructors of
  their own; every other backend method is a \<open>Call\<close> node carrying the method's name and
  its operands, with arguments that are plain Python values written as literals.
\<close>

datatype "value" = VNull | VBool bool | VInt int | VFloat pyfloat | VStr string

datatype binop = Add | Sub | Mul | Div | Mod | Eq | Ne | Gt | Lt | Ge | Le | And | Or

datatype expr =
    Col string
  | Lit "value"
  | Alias string expr
  | BinOp binop expr expr
  | Not expr
  | When expr expr expr
  | Call string "expr list"

text \<open>
  What the expression parser returns: a backend expression, or for the \<^verbatim>\<open>FILTER\<close> and
  \<^verbatim>\<open>FILTERS\<close> families the Python tuple \<^verbatim>\<open>(op, method, args)\<close>.
\<close>

datatype parsed = PExpr expr | PFilter string string "string list"

text \<open>
  The backend is not part of the repository, and its releases differ. What the source
  asks of it while it builds an expression is a parameter:
  \<^item> \<open>dtype_is_utf8\<close>: whether \<^verbatim>\<open>e.dtype\<close> is the text type, or the exception of the
    attribute access;
  \<^item> \<open>repr_starts_col\<close>: whether \<^verbatim>\<open>str(e)\<close> starts with \<^verbatim>\<open>col(\<close>;
  \<^item> \<open>today\<close>: the value of \<^verbatim>\<open>datetime.date.today()\<close>;
  \<^item> \<open>call_error\<close>: the exception, if any, of looking a method up and calling it with
    the given operands (a method the release does not have, an argument it refuses);
  \<^item> \<open>wide_int_lit\<close>: \<^verbatim>\<open>pl.lit(n)\<close> for an integer outside the signed 64-bit range,
    which a release may refuse.

  \<open>prim\<close> is the row-wise meaning of the \<open>Call\<close> nodes and of the arithmetic operators,
  used only when a table is evaluated.
\<close>

record backend =
  dtype_is_utf8 :: "expr \<Rightarrow> error + bool"
  repr_starts_col :: "expr \<Rightarrow> bool"
  today :: "value"
  call_error :: "string \<Rightarrow> expr list \<Rightarrow> error option"
  wide_int_lit :: "int \<Rightarrow> error + expr"
  prim :: "string \<Rightarrow> value list \<Rightarrow> error + value"

text \<open>\<^verbatim>\<open>pl.lit(n)\<close> for a Python integer.\<close>

definition lit_int :: "backend \<Rightarrow> int \<Rightarrow> error + expr" where
  "lit_int bk n =
     (if - (2 ^ 63) \<le> n \<and> n < 2 ^ 63 then Inr (Lit (VInt n)) else wide_int_lit bk n)"

text \<open>A method call on the backend: the \<open>Call\<close> node, unless the backend raises.\<close>

definition call :: "backend \<Rightarrow> string \<Rightarrow> expr list \<Rightarrow> error + expr" where
  "call bk name es = (case call_error bk name es of None \<Rightarrow> Inr (Call name es) | Some err \<Rightarrow> Inl err)"

section \<open>Results and exceptions\<close>

definition bind_r :: "error + 'a \<Rightarrow> ('a \<Rightarrow> error + 'b) \<Rightarrow> error + 'b" where
  "bind_r m f = (case m of Inl e \<Rightarrow> Inl e | Inr x \<Rightarrow> f x)"

text \<open>\<^verbatim>\<open>xs[i]\<close> raises \<^verbatim>\<open>IndexError\<close> out of range.\<close>

definition item :: "'a list \<Rightarrow> nat \<Rightarrow> error + 'a" where
  "item xs i = (if i < length xs then Inr (xs ! i) else Inl IndexError)"

text \<open>A list comprehension over a function that may raise: the first exception wins.\<close>

fun each :: "('a \<Rightarrow> error + 'b) \<Rightarrow> 'a list \<Rightarrow> error + 'b list" where
  "each f [] = Inr []"
| "each f (x # xs) = bind_r (f x) (\<lambda>y. bind_r (each f xs) (\<lambda>ys. Inr (y # ys)))"

text \<open>\<^verbatim>\<open>a, b = args\<close> raises \<^verbatim>\<open>ValueError\<close> unless there are exactly two.\<close>

definition unpack2 :: "'a list \<Rightarrow> error + ('a \<times> 'a)" where
  "unpack2 xs = (case xs of [a, b] \<Rightarrow> Inr (a, b) | _ \<Rightarrow> Inl ValueError)"

text \<open>
  A parsed operand used as an expression. A filter tuple has none of the backend's
  methods (\<^verbatim>\<open>AttributeError\<close>); as the operand of an operator or where the backend expects
  an expression it is taken to raise \<^verbatim>\<open>TypeError\<close>.
\<close>

definition recv :: "parsed \<Rightarrow> error + expr" where
  "recv p = (case p of PExpr e \<Rightarrow> Inr e | PFilter _ _ _ \<Rightarrow> Inl AttributeError)"

definition operand :: "parsed \<Rightarrow> error + expr" where
  "operand p = (case p of PExpr e \<Rightarrow> Inr e | PFilter _ _ _ \<Rightarrow> Inl TypeError)"

section \<open>The regular expressions of the parser\<close>

text \<open>
  \<^verbatim>\<open>(\w+)\s*\[(.*)\]\s*$\<close> matched at the start of a string, with \<^verbatim>\<open>.\<close> matching every
  character: the longest run of word characters (it must be followed by white space or
  the bracket, so no shorter run can match), white space, the opening bracket, and the
  text up to the last closing bracket, after which only white space may follow. The
  result is the two groups.
\<close>

definition rx_op :: "string \<Rightarrow> (string \<times> string) option" where
  "rx_op s =
     (let w = takeWhile is_word s; r = lstrip (dropWhile is_word s)
      in if w = [] then None
         else case r of
                [] \<Rightarrow> None
              | c # body \<Rightarrow>
                  if c = CHR ''['' \<and> rstrip body \<noteq> [] \<and> last (rstrip body) = CHR '']''
                  then Some (w, butlast (rstrip body)) else None)"

text \<open>
  The same pattern after the prefix \<^verbatim>\<open>trns:\s*\<close>, which the source uses when the lower-cased
  string starts with \<^verbatim>\<open>trns:\<close>.
\<close>

definition rx_transform :: "string \<Rightarrow> (string \<times> string) option" where
  "rx_transform s =
     (if startswith (py_lower s) ''trns:'' then rx_op (lstrip (drop 5 s)) else rx_op s)"

text \<open>
  \<^verbatim>\<open>(\w+)\s*\((.*)\)$\<close> matched at the start: the closing parenthesis is the last
  character, or the last before a final newline (\<^verbatim>\<open>$\<close> also matches there).
\<close>

definition rx_call :: "string \<Rightarrow> (string \<times> string) option" where
  "rx_call s =
     (let w = takeWhile is_word s; r = lstrip (dropWhile is_word s)
      in if w = [] then None
         else case r of
                [] \<Rightarrow> None
              | c # body \<Rightarrow>
                  if c \<noteq> CHR ''('' then None
                  else if body \<noteq> [] \<and> last body = CHR '')'' then Some (w, butlast body)
                  else if endswith body [CHR '')'', CHR 0x0A] then Some (w, butlast (butlast body))
                  else None)"

text \<open>
  \<^verbatim>\<open>attr\(\s*['\"](.+?)['\"]\s*\)\<close>, any case, matching the whole string: after the
  opening quote the name runs to the last quote character, which only white space may
  separate from the final parenthesis; the name is not empty and has no newline.
\<close>

definition rx_attr_quoted :: "string \<Rightarrow> string option" where
  "rx_attr_quoted s =
     (if py_lower (take 5 s) = ''attr('' then
        (case lstrip (drop 5 s) of
           [] \<Rightarrow> None
         | q # rest \<Rightarrow>
             if is_quote q \<and> rest \<noteq> [] \<and> last rest = CHR '')'' then
               (let body = rstrip (butlast rest)
                in if body \<noteq> [] \<and> is_quote (last body) \<and> butlast body \<noteq> []
                      \<and> CHR 0x0A \<notin> set (butlast body)
                   then Some (butlast body) else None)
             else None)
      else None)"

text \<open>\<^verbatim>\<open>ATTR\(\s*([^)]+)\s*\)\<close>, in this case only, matching the whole string.\<close>

definition rx_attr_bare :: "string \<Rightarrow> string option" where
  "rx_attr_bare s =
     (if startswith s ''ATTR('' \<and> drop 5 s \<noteq> [] \<and> last (drop 5 s) = CHR '')''
         \<and> butlast (drop 5 s) \<noteq> [] \<and> CHR '')'' \<notin> set (butlast (drop 5 s))
      then Some (butlast (drop 5 s)) else None)"

text \<open>
  The lazy group \<^verbatim>\<open>(.+?)['\"]\s*\)\<close> of the two shorthand patterns, which match a
  prefix only: the shortest non-empty text without a newline that is followed by a quote
  character, white space and a closing parenthesis.
\<close>

fun rx_lazy_quoted :: "string \<Rightarrow> string \<Rightarrow> string option" where
  "rx_lazy_quoted acc [] = None"
| "rx_lazy_quoted acc (c # s) =
     (if acc \<noteq> [] \<and> is_quote c \<and> startswith (lstrip s) '')'' then Some acc
      else if c = CHR 0x0A then None
      else rx_lazy_quoted (acc @ [c]) s)"

text \<open>\<^verbatim>\<open>NAME\s*\(\s*['\"](.+?)['\"]\s*\)\<close>, any case, matched at the start.\<close>

definition rx_shorthand :: "string \<Rightarrow> string \<Rightarrow> string option" where
  "rx_shorthand name s =
     (if py_lower (take (length name) s) = name then
        (case lstrip (drop (length name) s) of
           [] \<Rightarrow> None
         | p # r \<Rightarrow>
             if p = CHR ''('' then
               (case lstrip r of
                  [] \<Rightarrow> None
                | q # rest \<Rightarrow> if is_quote q then rx_lazy_quoted [] rest else None)
             else None)
      else None)"

section \<open>The value parser and the expression parser\<close>

subsection \<open>\<^verbatim>\<open>try_parse_literal\<close> and \<^verbatim>\<open>parse_attr\<close>\<close>

definition try_parse_literal :: "backend \<Rightarrow> string \<Rightarrow> error + expr option" where
  "try_parse_literal bk token0 =
     (let token = strip token0
      in if 2 \<le> length token \<and> hd token = last token \<and> is_quote (hd token)
         then Inr (Some (Lit (VStr (butlast (tl token)))))
         else if is_number token then
           (if CHR ''.'' \<in> set token
            then (case py_float token of
                    Some x \<Rightarrow> Inr (Some (Lit (VFloat x)))
                  | None \<Rightarrow> Inl ValueError)
            else bind_r (int_float token) (\<lambda>n. bind_r (lit_int bk n) (\<lambda>e. Inr (Some e))))
         else if py_lower token = ''true'' then Inr (Some (Lit (VBool True)))
         else if py_lower token = ''false'' then Inr (Some (Lit (VBool False)))
         else Inr None)"

definition parse_attr :: "string \<Rightarrow> expr option" where
  "parse_attr token =
     (case rx_attr_quoted (strip token) of
        Some name \<Rightarrow> Some (Col (strip name))
      | None \<Rightarrow>
          (case rx_attr_bare (strip token) of
             Some name \<Rightarrow> Some (Col (strip name))
           | None \<Rightarrow> None))"

definition parse_date_format :: "string option \<Rightarrow> string" where
  "parse_date_format fmt = (case fmt of None \<Rightarrow> ''%m%d%Y'' | Some f \<Rightarrow> if f = [] then ''%m%d%Y'' else f)"

definition parse_method_call :: "string \<Rightarrow> string \<Rightarrow> error + (string \<times> string list)" where
  "parse_method_call op content =
     (case rx_call (strip content) of
        None \<Rightarrow> Inl ValueError
      | Some (m, args_str) \<Rightarrow> Inr (py_upper m, split_args args_str))"

subsection \<open>The branches of \<^verbatim>\<open>parse_transform_expression\<close>\<close>

text \<open>
  The three parsers call each other. Their bodies are written once, over the two
  functions \<open>pv\<close> (for \<^verbatim>\<open>parse_value\<close>) and \<open>pbe\<close> (for \<^verbatim>\<open>parse_boolean_expr\<close>) that
  they call; the recursive definitions below tie the knot. Each body evaluates its
  sub-expressions in the source's order, so that the first exception is the source's.
\<close>

type_synonym pv_fun = "string \<Rightarrow> error + parsed"
type_synonym pbe_fun = "string \<Rightarrow> error + expr"

definition lit_str :: "string \<Rightarrow> expr" where
  "lit_str s = Lit (VStr s)"

text \<open>\<^verbatim>\<open>a OP parse_value(args[1])\<close> for an operator of the backend.\<close>

definition binary :: "pv_fun \<Rightarrow> binop \<Rightarrow> parsed \<Rightarrow> string list \<Rightarrow> error + parsed" where
  "binary pv bop a args =
     bind_r (item args 1) (\<lambda>a1. bind_r (pv a1) (\<lambda>b.
     bind_r (operand a) (\<lambda>x. bind_r (operand b) (\<lambda>y. Inr (PExpr (BinOp bop x y))))))"

definition math_family :: "backend \<Rightarrow> pv_fun \<Rightarrow> string \<Rightarrow> string list \<Rightarrow> error + parsed" where
  "math_family bk pv method args =
     bind_r (item args 0) (\<lambda>a0. bind_r (pv a0) (\<lambda>a.
       if method = ''ADD'' then binary pv Add a args
       else if method = ''SUB'' then binary pv Sub a args
       else if method = ''MUL'' then binary pv Mul a args
       else if method = ''DIV'' then binary pv Div a args
       else if method = ''MOD'' then binary pv Mod a args
       else if method = ''ROUND'' then
         bind_r (item args 1) (\<lambda>a1. bind_r (int_float (strip a1)) (\<lambda>prec.
         bind_r (recv a) (\<lambda>x. bind_r (call bk ''round'' [x, Lit (VInt prec)]) (\<lambda>e.
           Inr (PExpr e)))))
       else if method = ''ABS'' then
         bind_r (recv a) (\<lambda>x. bind_r (call bk ''abs'' [x]) (\<lambda>e. Inr (PExpr e)))
       else Inl ValueError))"

text \<open>
  \<^verbatim>\<open>if not base.dtype == pl.Utf8: base = base.cast(pl.Utf8)\<close>, the guard of the string
  methods.
\<close>

definition as_text :: "backend \<Rightarrow> parsed \<Rightarrow> error + expr" where
  "as_text bk base =
     bind_r (recv base) (\<lambda>e. bind_r (dtype_is_utf8 bk e) (\<lambda>u.
       if u then Inr e else call bk ''cast'' [e, lit_str ''Utf8'']))"

definition text_method :: "backend \<Rightarrow> pv_fun \<Rightarrow> string \<Rightarrow> string list \<Rightarrow> error + parsed" where
  "text_method bk pv name args =
     bind_r (item args 0) (\<lambda>a0. bind_r (pv a0) (\<lambda>base.
     bind_r (as_text bk base) (\<lambda>b. bind_r (call bk name [b]) (\<lambda>e. Inr (PExpr e)))))"

definition string_family :: "backend \<Rightarrow> pv_fun \<Rightarrow> string \<Rightarrow> string list \<Rightarrow> error + parsed" where
  "string_family bk pv method args =
     (if method = ''CONCAT'' then
        bind_r (each pv args) (\<lambda>parts. bind_r (each operand parts) (\<lambda>es.
        bind_r (call bk ''concat_str'' es) (\<lambda>e. Inr (PExpr e))))
      else if method = ''SUBSTR'' then
        bind_r (item args 0) (\<lambda>a0. bind_r (pv a0) (\<lambda>base.
        bind_r (as_text bk base) (\<lambda>b.
        bind_r (item args 1) (\<lambda>a1. bind_r (pv a1) (\<lambda>start.
          if 2 < length args then
            bind_r (pv (args ! 2)) (\<lambda>len.
            bind_r (operand start) (\<lambda>s. bind_r (operand len) (\<lambda>l.
            bind_r (call bk ''str.slice'' [b, s, l]) (\<lambda>e. Inr (PExpr e)))))
          else bind_r (operand start) (\<lambda>s.
               bind_r (call bk ''str.slice'' [b, s]) (\<lambda>e. Inr (PExpr e))))))))
      else if method = ''REPLACE'' then
        bind_r (item args 0) (\<lambda>a0. bind_r (pv a0) (\<lambda>base.
        bind_r (as_text bk base) (\<lambda>b.
        bind_r (item args 1) (\<lambda>a1. bind_r (pv a1) (\<lambda>find.
        bind_r (item args 2) (\<lambda>a2. bind_r (pv a2) (\<lambda>repl.
        bind_r (operand find) (\<lambda>f. bind_r (operand repl) (\<lambda>r.
        bind_r (call bk ''str.replace_all'' [b, f, r]) (\<lambda>e. Inr (PExpr e)))))))))))
      else if method = ''UPPER'' then text_method bk pv ''str.to_uppercase'' args
      else if method = ''LOWER'' then text_method bk pv ''str.to_lowercase'' args
      else if method = ''TRIM'' then text_method bk pv ''str.strip_chars'' args
      else if method = ''LENGTH'' then text_method bk pv ''str.len_chars'' args
      else Inl ValueError)"

definition conditional :: "pv_fun \<Rightarrow> pbe_fun \<Rightarrow> string list \<Rightarrow> error + expr" where
  "conditional pv pbe args =
     bind_r (item args 0) (\<lambda>a0. bind_r (pbe a0) (\<lambda>cond.
     bind_r (item args 1) (\<lambda>a1. bind_r (pv a1) (\<lambda>tv.
     bind_r (item args 2) (\<lambda>a2. bind_r (pv a2) (\<lambda>fv.
     bind_r (operand tv) (\<lambda>t. bind_r (operand fv) (\<lambda>f. Inr (When cond t f)))))))))"

definition logical_family :: "pv_fun \<Rightarrow> pbe_fun \<Rightarrow> string \<Rightarrow> string list \<Rightarrow> error + parsed" where
  "logical_family pv pbe method args =
     (if method = ''IF'' then bind_r (conditional pv pbe args) (\<lambda>e. Inr (PExpr e))
      else if method = ''AND'' then
        bind_r (each pbe args) (\<lambda>exps. bind_r (item exps 0) (\<lambda>e0.
          Inr (PExpr (foldl (BinOp And) e0 (tl exps)))))
      else if method = ''OR'' then
        bind_r (each pbe args) (\<lambda>exps. bind_r (item exps 0) (\<lambda>e0.
          Inr (PExpr (foldl (BinOp Or) e0 (tl exps)))))
      else if method = ''NOT'' then
        bind_r (item args 0) (\<lambda>a0. bind_r (pbe a0) (\<lambda>e. Inr (PExpr (Not e))))
      else Inl ValueError)"

text \<open>\<^verbatim>\<open>f"BOOLEAN[{method}({', '.join(args)})]"\<close>.\<close>

definition boolean_source :: "string \<Rightarrow> string list \<Rightarrow> string" where
  "boolean_source method args = ''BOOLEAN['' @ method @ ''('' @ join '', '' args @ '')]''"

text \<open>\<^verbatim>\<open>e.str.strptime(dtype, fmt, strict=False)\<close> and \<^verbatim>\<open>e.dt.strftime(fmt)\<close>.\<close>

definition strptime :: "backend \<Rightarrow> expr \<Rightarrow> string \<Rightarrow> string \<Rightarrow> error + expr" where
  "strptime bk e dtype fmt =
     call bk ''str.strptime'' [e, lit_str dtype, lit_str fmt, Lit (VBool False)]"

definition strftime :: "backend \<Rightarrow> expr \<Rightarrow> string \<Rightarrow> error + expr" where
  "strftime bk e fmt = call bk ''dt.strftime'' [e, lit_str fmt]"

text \<open>\<^verbatim>\<open>(d1 - d2).dt.total_days()\<close>.\<close>

definition total_days :: "backend \<Rightarrow> expr \<Rightarrow> expr \<Rightarrow> error + parsed" where
  "total_days bk x y = bind_r (call bk ''dt.total_days'' [BinOp Sub x y]) (\<lambda>e. Inr (PExpr e))"

definition total_days_between :: "backend \<Rightarrow> parsed \<Rightarrow> parsed \<Rightarrow> error + parsed" where
  "total_days_between bk d1 d2 =
     bind_r (operand d1) (\<lambda>x. bind_r (operand d2) (\<lambda>y. total_days bk x y))"

definition is_col_expr :: "backend \<Rightarrow> parsed \<Rightarrow> bool" where
  "is_col_expr bk p = (case p of PExpr e \<Rightarrow> repr_starts_col bk e | PFilter _ _ _ \<Rightarrow> False)"

text \<open>
  In the \<^verbatim>\<open>FORMAT\<close> branch the calls on an operand that is no column stand in
  \<^verbatim>\<open>try\<close> blocks: when \<^verbatim>\<open>base.dt.strftime(fmt)\<close> raises, parsing and formatting is tried,
  and when that raises too the operand is returned as it is.
\<close>

definition date_family :: "backend \<Rightarrow> pv_fun \<Rightarrow> string \<Rightarrow> string list \<Rightarrow> error + parsed" where
  "date_family bk pv method args =
     (if method = ''FORMAT'' then
        bind_r (item args 0) (\<lambda>a0. bind_r (pv a0) (\<lambda>base.
        bind_r (item args 1) (\<lambda>a1.
          let fmt = strip_quotes (strip a1);
              parse_then_format =
                bind_r (recv base) (\<lambda>e. bind_r (strptime bk e ''Datetime'' fmt) (\<lambda>p.
                  strftime bk p fmt))
          in if is_col_expr bk base then bind_r parse_then_format (\<lambda>e. Inr (PExpr e))
             else case bind_r (recv base) (\<lambda>e. strftime bk e fmt) of
                    Inr e \<Rightarrow> Inr (PExpr e)
                  | Inl _ \<Rightarrow>
                      (case parse_then_format of
                         Inr e \<Rightarrow> Inr (PExpr e)
                       | Inl _ \<Rightarrow> Inr base))))
      else if method = ''PARSE'' then
        bind_r (item args 0) (\<lambda>a0. bind_r (pv a0) (\<lambda>p. bind_r (recv p) (\<lambda>e.
        bind_r (call bk ''cast'' [e, lit_str ''Utf8'']) (\<lambda>base.
          let fmt = parse_date_format
                      (if 1 < length args then Some (strip_quotes (strip (args ! 1))) else None)
          in bind_r (strptime bk base ''Date'' fmt) (\<lambda>r. Inr (PExpr r))))))
      else if method = ''ADD_DAYS'' then
        bind_r (item args 0) (\<lambda>a0. bind_r (pv a0) (\<lambda>base.
        bind_r (item args 1) (\<lambda>a1. bind_r (int_float a1) (\<lambda>n. bind_r (recv base) (\<lambda>e.
        bind_r (call bk ''dt.offset_by'' [e, lit_str (str_int n @ ''d'')]) (\<lambda>r.
          Inr (PExpr r)))))))
      else if method = ''SUB_DAYS'' then
        bind_r (item args 0) (\<lambda>a0. bind_r (pv a0) (\<lambda>base.
        bind_r (item args 1) (\<lambda>a1. bind_r (int_float a1) (\<lambda>n. bind_r (recv base) (\<lambda>e.
        bind_r (call bk ''dt.offset_by'' [e, lit_str (''-'' @ str_int n @ ''d'')]) (\<lambda>r.
          Inr (PExpr r)))))))
      else if method = ''DIFF_DAYS'' then
        bind_r (item args 0) (\<lambda>a0. bind_r (pv a0) (\<lambda>d1.
        bind_r (item args 1) (\<lambda>a1. bind_r (pv a1) (\<lambda>d2. total_days_between bk d1 d2))))
      else if method = ''DIFF'' then
        bind_r (item args 0) (\<lambda>a0. bind_r (pv a0) (\<lambda>d1.
        bind_r (item args 1) (\<lambda>a1. bind_r (pv a1) (\<lambda>d2.
          let unit = (if 2 < length args then strip_quotes (strip (args ! 2)) else ''days'')
          in if is_col_expr bk d1 \<and> is_col_expr bk d2 then
               (if py_lower unit = ''days'' then
                  bind_r (recv d1) (\<lambda>x. bind_r (recv d2) (\<lambda>y.
                  bind_r (strptime bk x ''Datetime'' ''%Y-%m-%d'') (\<lambda>p1.
                  bind_r (strptime bk y ''Datetime'' ''%Y-%m-%d'') (\<lambda>p2.
                    total_days bk p1 p2))))
                else Inl ValueError)
             else if py_lower unit = ''days'' then total_days_between bk d1 d2
             else Inl ValueError))))
      else if method = ''CURRENT_DATE'' then Inr (PExpr (Lit (today bk)))
      else if method = ''EXTRACT'' then
        bind_r (item args 0) (\<lambda>a0. bind_r (pv a0) (\<lambda>base.
        bind_r (item args 1) (\<lambda>a1.
          let part = py_lower (strip_quotes (strip a1))
          in if part = ''year'' then
               bind_r (recv base) (\<lambda>e. bind_r (call bk ''dt.year'' [e]) (\<lambda>r. Inr (PExpr r)))
             else if part = ''month'' then
               bind_r (recv base) (\<lambda>e. bind_r (call bk ''dt.month'' [e]) (\<lambda>r. Inr (PExpr r)))
             else if part = ''day'' then
               bind_r (recv base) (\<lambda>e. bind_r (call bk ''dt.day'' [e]) (\<lambda>r. Inr (PExpr r)))
             else Inl ValueError)))
      else Inl ValueError)"

definition list_method :: "backend \<Rightarrow> pv_fun \<Rightarrow> string \<Rightarrow> string list \<Rightarrow> error + parsed" where
  "list_method bk pv name args =
     bind_r (item args 0) (\<lambda>a0. bind_r (pv a0) (\<lambda>p. bind_r (recv p) (\<lambda>e.
     bind_r (call bk name [e]) (\<lambda>r. Inr (PExpr r)))))"

text \<open>
  \<^verbatim>\<open>parse_value(args[0]).arr.get(parse_value(args[1]))\<close>: the method is looked up on the
  first operand before the second is parsed.
\<close>

definition array_family :: "backend \<Rightarrow> pv_fun \<Rightarrow> string \<Rightarrow> string list \<Rightarrow> error + parsed" where
  "array_family bk pv method args =
     (if method = ''JOIN'' then
        bind_r (item args 0) (\<lambda>a0. bind_r (pv a0) (\<lambda>base.
        bind_r (item args 1) (\<lambda>a1. Inr base)))
      else if method = ''SPLIT'' then
        bind_r (item args 0) (\<lambda>a0. bind_r (pv a0) (\<lambda>p. bind_r (recv p) (\<lambda>e.
        bind_r (call bk ''cast'' [e, lit_str ''Utf8'']) (\<lambda>s.
        bind_r (item args 1) (\<lambda>a1.
        bind_r (call bk ''str.split'' [s, lit_str (strip_quotes (strip a1))]) (\<lambda>r.
          Inr (PExpr r)))))))
      else if method = ''LENGTH'' then list_method bk pv ''arr.lengths'' args
      else if method = ''GET'' then
        bind_r (item args 0) (\<lambda>a0. bind_r (pv a0) (\<lambda>p. bind_r (recv p) (\<lambda>e.
        bind_r (item args 1) (\<lambda>a1. bind_r (pv a1) (\<lambda>q. bind_r (operand q) (\<lambda>i.
        bind_r (call bk ''arr.get'' [e, i]) (\<lambda>r. Inr (PExpr r))))))))
      else Inl ValueError)"

definition aggregation_family :: "backend \<Rightarrow> pv_fun \<Rightarrow> string \<Rightarrow> string list \<Rightarrow> error + parsed" where
  "aggregation_family bk pv method args =
     (if method = ''SUM'' then list_method bk pv ''arr.sum'' args
      else if method = ''AVG'' then list_method bk pv ''arr.mean'' args
      else if method = ''MIN'' then list_method bk pv ''arr.min'' args
      else if method = ''MAX'' then list_method bk pv ''arr.max'' args
      else if method = ''COUNT'' then list_method bk pv ''arr.lengths'' args
      else Inl ValueError)"

text \<open>The dispatch on the operation family, after the method call has been parsed.\<close>

definition dispatch ::
  "backend \<Rightarrow> pv_fun \<Rightarrow> pbe_fun \<Rightarrow> string \<Rightarrow> string \<Rightarrow> string list \<Rightarrow> error + parsed" where
  "dispatch bk pv pbe op method args =
     (if op = ''MATH'' then math_family bk pv method args
      else if op = ''STRING'' then string_family bk pv method args
      else if op = ''LOGICAL'' then logical_family pv pbe method args
      else if op = ''BOOLEAN'' then
        bind_r (pbe (boolean_source method args)) (\<lambda>e. Inr (PExpr e))
      else if op = ''FILTERS'' then Inr (PFilter ''FILTERS'' method args)
      else if op = ''FILTER'' then Inr (PFilter ''FILTER'' method args)
      else if op = ''DIRECT'' then
        (if method = ''ATTR'' then bind_r (item args 0) pv else Inl ValueError)
      else if op = ''DATE'' then date_family bk pv method args
      else if op = ''ARRAY'' then array_family bk pv method args
      else if op = ''AGGREGATION'' then aggregation_family bk pv method args
      else Inl ValueError)"

definition transform_body :: "backend \<Rightarrow> pv_fun \<Rightarrow> pbe_fun \<Rightarrow> string \<Rightarrow> error + parsed" where
  "transform_body bk pv pbe expr0 =
     (let expr = strip expr0
      in case rx_transform expr of
           None \<Rightarrow> Inl ValueError
         | Some (g1, g2) \<Rightarrow>
             bind_r (parse_method_call (py_upper g1) (strip g2)) (\<lambda>(method, args).
               dispatch bk pv pbe (py_upper g1) method args))"

subsection \<open>The body of \<^verbatim>\<open>parse_boolean_expr\<close>\<close>

text \<open>
  \<^verbatim>\<open>parse_value(a).eq(parse_value(b))\<close>: the method is looked up on the left operand before
  the right one is parsed. \<^verbatim>\<open>parse_value(a) > parse_value(b)\<close>: both are parsed, then the
  operator applies. A comparison operator on a filter tuple is taken to raise
  \<^verbatim>\<open>TypeError\<close>.
\<close>

definition call_cmp :: "pv_fun \<Rightarrow> binop \<Rightarrow> string list \<Rightarrow> error + expr" where
  "call_cmp pv bop args =
     bind_r (unpack2 args) (\<lambda>(a, b).
     bind_r (pv a) (\<lambda>p. bind_r (recv p) (\<lambda>l.
     bind_r (pv b) (\<lambda>q. bind_r (operand q) (\<lambda>r. Inr (BinOp bop l r))))))"

definition op_cmp :: "pv_fun \<Rightarrow> binop \<Rightarrow> string list \<Rightarrow> error + expr" where
  "op_cmp pv bop args =
     bind_r (unpack2 args) (\<lambda>(a, b).
     bind_r (pv a) (\<lambda>p. bind_r (pv b) (\<lambda>q.
     bind_r (operand p) (\<lambda>l. bind_r (operand q) (\<lambda>r. Inr (BinOp bop l r))))))"

definition infix_ops :: "string list" where
  "infix_ops = [''=='', ''!='', ''>='', ''<='', ''>'', ''<'']"

definition infix_cmp :: "string \<Rightarrow> parsed \<Rightarrow> parsed \<Rightarrow> error + expr" where
  "infix_cmp op l r =
     (if op = ''=='' then bind_r (recv l) (\<lambda>x. bind_r (operand r) (\<lambda>y. Inr (BinOp Eq x y)))
      else if op = ''!='' then bind_r (recv l) (\<lambda>x. bind_r (operand r) (\<lambda>y. Inr (BinOp Ne x y)))
      else bind_r (operand l) (\<lambda>x. bind_r (operand r) (\<lambda>y.
        if op = ''>'' then Inr (BinOp Gt x y)
        else if op = ''<'' then Inr (BinOp Lt x y)
        else if op = ''>='' then Inr (BinOp Ge x y)
        else Inr (BinOp Le x y))))"

definition boolean_body :: "pv_fun \<Rightarrow> pbe_fun \<Rightarrow> string \<Rightarrow> error + expr" where
  "boolean_body pv pbe expr0 =
     (let expr = strip expr0
      in if startswith expr ''BOOLEAN['' \<and> endswith expr '']'' then
           (case rx_call (strip (butlast (drop 8 expr))) of
              None \<Rightarrow> Inl ValueError
            | Some (m, args_str) \<Rightarrow>
                let method = py_upper m; args = split_args args_str
                in if method = ''EQUALS'' then call_cmp pv Eq args
                   else if method = ''EQ'' then call_cmp pv Eq args
                   else if method = ''NOT_EQUALS'' then call_cmp pv Ne args
                   else if method = ''GREATER_THAN'' then op_cmp pv Gt args
                   else if method = ''GT'' then op_cmp pv Gt args
                   else if method = ''LESS_THAN'' then op_cmp pv Lt args
                   else if method = ''GREATER_OR_EQUAL'' then op_cmp pv Ge args
                   else if method = ''LESS_OR_EQUAL'' then op_cmp pv Le args
                   else Inl ValueError)
         else if startswith expr ''IF('' \<and> endswith expr '')'' then
           (let args = split_args (strip (butlast (drop 3 expr)))
            in if 3 \<le> length args then conditional pv pbe args else Inl ValueError)
         else if startswith expr ''EQ('' \<or> startswith expr ''GT('' \<or> startswith expr ''LT(''
                 \<or> startswith expr ''GTE('' \<or> startswith expr ''LTE('' \<or> startswith expr ''NE('' then
           (case rx_call (strip expr) of
              None \<Rightarrow> Inl ValueError
            | Some (m, args_str) \<Rightarrow>
                let method = py_upper m; args = split_args args_str
                in if method = ''EQ'' then call_cmp pv Eq args
                   else if method = ''GT'' then op_cmp pv Gt args
                   else if method = ''LT'' then op_cmp pv Lt args
                   else if method = ''GTE'' then op_cmp pv Ge args
                   else if method = ''LTE'' then op_cmp pv Le args
                   else if method = ''NE'' then call_cmp pv Ne args
                   else Inl ValueError)
         else
           (case find (contains expr) infix_ops of
              None \<Rightarrow> Inl ValueError
            | Some op \<Rightarrow>
                (case split_once expr op of
                   None \<Rightarrow> Inl ValueError
                 | Some (left, right) \<Rightarrow>
                     bind_r (pv (strip left)) (\<lambda>l. bind_r (pv (strip right)) (\<lambda>r.
                       infix_cmp op l r)))))"

subsection \<open>The body of \<^verbatim>\<open>parse_value\<close> after the check for a nested expression\<close>

definition value_token :: "backend \<Rightarrow> string \<Rightarrow> error + parsed" where
  "value_token bk token =
     (case parse_attr token of
        Some c \<Rightarrow> Inr (PExpr c)
      | None \<Rightarrow>
          if py_lower token = ''true'' then Inr (PExpr (Lit (VBool True)))
          else if py_lower token = ''false'' then Inr (PExpr (Lit (VBool False)))
          else bind_r (try_parse_literal bk token) (\<lambda>l.
                 case l of Some e \<Rightarrow> Inr (PExpr e) | None \<Rightarrow> Inr (PExpr (Col token))))"

section \<open>Termination of the parsers\<close>

text \<open>
  The parsers recurse on pieces of their input string. The measure is the number of
  characters that are not white space: stripping keeps it, every piece the regular
  expressions and the lexer cut out has fewer such characters than the whole, and the
  string rebuilt for the \<^verbatim>\<open>BOOLEAN\<close> family has no more.
\<close>

definition nsp :: "string \<Rightarrow> nat" where
  "nsp s = length (filter (\<lambda>c. \<not> is_space c) s)"

lemma nsp_Nil [simp]: "nsp [] = 0" by (simp add: nsp_def)
lemma nsp_Cons [simp]: "nsp (c # s) = (if is_space c then 0 else 1) + nsp s" by (simp add: nsp_def)
lemma nsp_append [simp]: "nsp (a @ b) = nsp a + nsp b" by (simp add: nsp_def)
lemma nsp_rev [simp]: "nsp (rev s) = nsp s" by (induction s) auto

lemma nsp_takeWhile_space [simp]: "nsp (takeWhile is_space s) = 0"
  by (induction s) auto

lemma nsp_dropWhile_space [simp]: "nsp (dropWhile is_space s) = nsp s"
  by (induction s) auto

lemma nsp_lstrip [simp]: "nsp (lstrip s) = nsp s" by (simp add: lstrip_def)
lemma nsp_rstrip [simp]: "nsp (rstrip s) = nsp s" by (simp add: rstrip_def)
lemma nsp_strip [simp]: "nsp (strip s) = nsp s" by (simp add: strip_def)

lemma nsp_drop_le: "nsp (drop n s) \<le> nsp s"
proof -
  have "nsp s = nsp (take n s) + nsp (drop n s)" by (metis append_take_drop_id nsp_append)
  then show ?thesis by simp
qed

lemma nsp_butlast_le: "nsp (butlast s) \<le> nsp s"
  by (cases s rule: rev_cases) auto

lemma nsp_butlast_nonspace: "s \<noteq> [] \<Longrightarrow> \<not> is_space (last s) \<Longrightarrow> nsp (butlast s) + 1 = nsp s"
  by (cases s rule: rev_cases) auto

lemma word_not_space: "is_word c \<Longrightarrow> \<not> is_space c"
  by (auto simp: is_word_def is_space_def is_upper_char_def is_lower_char_def is_digit_def)

lemma nsp_word: "\<forall>c \<in> set w. is_word c \<Longrightarrow> nsp w = length w"
  by (induction w) (auto simp: word_not_space)

lemma nsp_takeWhile_word: "nsp (takeWhile is_word s) = length (takeWhile is_word s)"
  by (rule nsp_word) (auto dest: set_takeWhileD)

lemma nsp_split_word: "nsp s = length (takeWhile is_word s) + nsp (dropWhile is_word s)"
  by (metis nsp_append nsp_takeWhile_word takeWhile_dropWhile_id)

lemma rx_op_nsp:
  assumes "rx_op s = Some (w, g)"
  shows "length w + nsp g + 2 \<le> nsp s" and "w = takeWhile is_word s"
proof -
  let ?r = "lstrip (dropWhile is_word s)"
  from assms obtain body where r: "?r = CHR ''['' # body"
    and b: "rstrip body \<noteq> []" "last (rstrip body) = CHR '']''"
    and w: "w = takeWhile is_word s" and g: "g = butlast (rstrip body)"
    by (auto simp: rx_op_def Let_def split: if_splits list.splits)
  have "nsp (dropWhile is_word s) = nsp ?r" by simp
  also have "\<dots> = 1 + nsp body" using r by (simp add: is_space_def)
  also have "nsp body = nsp (rstrip body)" by simp
  also have "\<dots> = nsp g + 1" using nsp_butlast_nonspace [of "rstrip body"] b g
    by (simp add: is_space_def)
  finally have "nsp (dropWhile is_word s) = nsp g + 2" by simp
  then show "length w + nsp g + 2 \<le> nsp s" using nsp_split_word [of s] w by simp
  show "w = takeWhile is_word s" by (rule w)
qed

lemma rx_call_nsp:
  assumes "rx_call s = Some (w, g)"
  shows "length w + nsp g + 2 \<le> nsp s"
proof -
  let ?r = "lstrip (dropWhile is_word s)"
  from assms obtain body where r: "?r = CHR ''('' # body"
    and w: "w = takeWhile is_word s"
    and g: "(body \<noteq> [] \<and> last body = CHR '')'' \<and> g = butlast body)
            \<or> (endswith body [CHR '')'', CHR 0x0A] \<and> g = butlast (butlast body))"
    by (auto simp: rx_call_def Let_def split: if_splits list.splits)
  have 1: "nsp (dropWhile is_word s) = 1 + nsp body"
  proof -
    have "nsp (dropWhile is_word s) = nsp ?r" by simp
    then show ?thesis using r by (simp add: is_space_def)
  qed
  have 2: "nsp g + 1 \<le> nsp body"
    using g
  proof
    assume "body \<noteq> [] \<and> last body = CHR '')'' \<and> g = butlast body"
    then show ?thesis using nsp_butlast_nonspace [of body] by (simp add: is_space_def)
  next
    assume a: "endswith body [CHR '')'', CHR 0x0A] \<and> g = butlast (butlast body)"
    then have "body = take (length body - 2) body @ [CHR '')'', CHR 0x0A]"
      by (metis append_take_drop_id endswith_def length_Cons list.size(3) numeral_2_eq_2)
    then obtain p where p: "body = p @ [CHR '')'', CHR 0x0A]" by blast
    then have "g = p" using a by (simp add: butlast_append)
    then show ?thesis using p by (simp add: is_space_def)
  qed
  show ?thesis using 1 2 nsp_split_word [of s] w by simp
qed

lemma rx_transform_nsp:
  assumes "rx_transform s = Some (w, g)"
  shows "length w + nsp g + 2 \<le> nsp s"
proof (cases "startswith (py_lower s) ''trns:''")
  case True
  with assms have "rx_op (lstrip (drop 5 s)) = Some (w, g)" by (simp add: rx_transform_def)
  then have "length w + nsp g + 2 \<le> nsp (lstrip (drop 5 s))" by (rule rx_op_nsp)
  then show ?thesis using nsp_drop_le [of 5 s] by simp
next
  case False
  with assms have "rx_op s = Some (w, g)" by (simp add: rx_transform_def)
  then show ?thesis by (rule rx_op_nsp)
qed


definition lex_weight :: "lex_state \<Rightarrow> nat" where
  "lex_weight st = sum_list (map nsp (lex_args st)) + length (lex_args st) + nsp (lex_cur st)"

lemma lex_weight_step: "lex_weight (lex_step st ch) = lex_weight st + nsp [ch]"
  by (cases "is_top_comma (scan_of st) ch")
     (auto simp: lex_weight_def args_step cur_step is_space_def scan_of_def)

lemma lex_weight_loop: "lex_weight (lex_loop st s) = lex_weight st + nsp s"
  by (induction s arbitrary: st) (simp_all add: lex_weight_step)

lemma split_args_weight:
  "sum_list (map nsp (split_args s)) + length (split_args s) \<le> nsp s + 1"
  using lex_weight_loop [of lex_init s]
  by (simp add: split_args_def Let_def lex_weight_def lex_init_def)

lemma split_args_nsp: "a \<in> set (split_args s) \<Longrightarrow> nsp a \<le> nsp s"
proof -
  assume a: "a \<in> set (split_args s)"
  then have "nsp a \<le> sum_list (map nsp (split_args s))"
    by (simp add: member_le_sum_list)
  moreover from a have "1 \<le> length (split_args s)" by (cases "split_args s") auto
  ultimately show ?thesis using split_args_weight [of s] by linarith
qed

lemma nsp_join: "nsp (join '', '' xs) + 1 \<le> sum_list (map nsp xs) + length xs \<or> xs = []"
  by (induction "'', ''" xs rule: join.induct) (auto simp: is_space_def)

lemma split_args_join_nsp: "nsp (join '', '' (split_args s)) \<le> nsp s"
  using nsp_join [of "split_args s"] split_args_weight [of s] by auto

lemma upper_char_space [simp]: "is_space (upper_char c) = is_space c"
  by (auto simp: upper_char_def is_space_def split: option.splits if_splits)

lemma nsp_py_upper [simp]: "nsp (py_upper s) = nsp s"
  by (induction s) (auto simp: py_upper_def)

lemma split_once_append: "split_once s p = Some (l, r) \<Longrightarrow> s = l @ p @ r"
proof (induction s p arbitrary: l rule: split_once.induct)
  case (1 p)
  then show ?case by (auto split: if_splits)
next
  case (2 c s p)
  show ?case
  proof (cases "startswith (c # s) p")
    case True
    with 2 have "l = []" "r = drop (length p) (c # s)" by auto
    moreover from True have "take (length p) (c # s) = p" by (simp add: startswith_def)
    ultimately show ?thesis by (metis append_Nil append_take_drop_id)
  next
    case False
    with 2 obtain l' where "split_once s p = Some (l', r)" "l = c # l'" by auto
    with 2 False show ?thesis by auto
  qed
qed


lemma bind_r_cong:
  "m = m' \<Longrightarrow> (\<And>x. m' = Inr x \<Longrightarrow> f x = f' x) \<Longrightarrow> bind_r m f = bind_r m' f'"
  by (auto simp: bind_r_def split: sum.splits)

lemma bind_r_simps [simp]: "bind_r (Inr x) f = f x" "bind_r (Inl e) f = Inl e"
  by (simp_all add: bind_r_def)

lemma item_set: "item xs i = Inr a \<Longrightarrow> a \<in> set xs"
  by (auto simp: item_def split: if_splits)

lemma each_cong: "(\<And>x. x \<in> set xs \<Longrightarrow> f x = g x) \<Longrightarrow> each f xs = each g xs"
  by (induction xs) (auto intro: bind_r_cong)

lemma binary_cong:
  "(\<And>a. a \<in> set args \<Longrightarrow> pv a = pv' a) \<Longrightarrow> binary pv bop x args = binary pv' bop x args"
  unfolding binary_def by (auto intro!: bind_r_cong dest: item_set)

lemma math_family_cong:
  "(\<And>a. a \<in> set args \<Longrightarrow> pv a = pv' a) \<Longrightarrow> math_family bk pv m args = math_family bk pv' m args"
  unfolding math_family_def by (auto intro!: bind_r_cong binary_cong dest: item_set)

lemma text_method_cong:
  "(\<And>a. a \<in> set args \<Longrightarrow> pv a = pv' a) \<Longrightarrow> text_method bk pv n args = text_method bk pv' n args"
  unfolding text_method_def by (auto intro!: bind_r_cong dest: item_set)



lemma string_family_cong:
  "(\<And>a. a \<in> set args \<Longrightarrow> pv a = pv' a) \<Longrightarrow>
   string_family bk pv m args = string_family bk pv' m args"
  unfolding string_family_def Let_def
  by (intro if_cong bind_r_cong each_cong text_method_cong refl; (auto dest: item_set)?)

lemma conditional_cong:
  "(\<And>a. a \<in> set args \<Longrightarrow> pv a = pv' a) \<Longrightarrow> (\<And>a. a \<in> set args \<Longrightarrow> pbe a = pbe' a) \<Longrightarrow>
   conditional pv pbe args = conditional pv' pbe' args"
  unfolding conditional_def
  by (intro if_cong bind_r_cong refl; (auto dest: item_set)?)

lemma logical_family_cong:
  "(\<And>a. a \<in> set args \<Longrightarrow> pv a = pv' a) \<Longrightarrow> (\<And>a. a \<in> set args \<Longrightarrow> pbe a = pbe' a) \<Longrightarrow>
   logical_family pv pbe m args = logical_family pv' pbe' m args"
  unfolding logical_family_def
  by (intro if_cong bind_r_cong each_cong conditional_cong refl; (auto dest: item_set)?)

lemma date_family_cong:
  "(\<And>a. a \<in> set args \<Longrightarrow> pv a = pv' a) \<Longrightarrow> date_family bk pv m args = date_family bk pv' m args"
  unfolding date_family_def Let_def
  by (intro if_cong bind_r_cong refl; (auto dest: item_set)?)

lemma list_method_cong:
  "(\<And>a. a \<in> set args \<Longrightarrow> pv a = pv' a) \<Longrightarrow> list_method bk pv n args = list_method bk pv' n args"
  unfolding list_method_def by (intro if_cong bind_r_cong refl; (auto dest: item_set)?)

lemma array_family_cong:
  "(\<And>a. a \<in> set args \<Longrightarrow> pv a = pv' a) \<Longrightarrow> array_family bk pv m args = array_family bk pv' m args"
  unfolding array_family_def Let_def
  by (intro if_cong bind_r_cong list_method_cong refl; (auto dest: item_set)?)

lemma aggregation_family_cong:
  "(\<And>a. a \<in> set args \<Longrightarrow> pv a = pv' a) \<Longrightarrow>
   aggregation_family bk pv m args = aggregation_family bk pv' m args"
  unfolding aggregation_family_def
  by (intro if_cong list_method_cong refl; (auto dest: item_set)?)

lemma dispatch_cong:
  assumes "\<And>a. a \<in> set args \<Longrightarrow> pv a = pv' a" and "\<And>a. a \<in> set args \<Longrightarrow> pbe a = pbe' a"
    and "op = ''BOOLEAN'' \<Longrightarrow> pbe (boolean_source m args) = pbe' (boolean_source m args)"
  shows "dispatch bk pv pbe op m args = dispatch bk pv' pbe' op m args"
  unfolding dispatch_def
  by (intro if_cong bind_r_cong math_family_cong string_family_cong logical_family_cong
        date_family_cong array_family_cong aggregation_family_cong refl;
      (use assms in \<open>auto dest: item_set\<close>)?)

lemma parse_method_call_nsp:
  assumes "parse_method_call op content = Inr (method, args)"
  shows "\<forall>a \<in> set args. nsp a + 2 + nsp method \<le> nsp content"
    and "nsp (join '', '' args) + 2 + nsp method \<le> nsp content"
proof -
  from assms obtain m args_str where rx: "rx_call (strip content) = Some (m, args_str)"
    and me: "method = py_upper m" and ar: "args = split_args args_str"
    by (auto simp: parse_method_call_def split: option.splits)
  from rx have "length m + nsp args_str + 2 \<le> nsp content"
    using rx_call_nsp [of "strip content" m args_str] by simp
  moreover have "nsp method \<le> length m" using me by (simp add: nsp_def py_upper_def)
  ultimately have le: "nsp method + nsp args_str + 2 \<le> nsp content" by simp
  show "\<forall>a \<in> set args. nsp a + 2 + nsp method \<le> nsp content"
    using le ar split_args_nsp by fastforce
  show "nsp (join '', '' args) + 2 + nsp method \<le> nsp content"
    using le ar split_args_join_nsp [of args_str] by simp
qed

lemma nsp_boolean_source: "nsp (boolean_source method args) = 11 + nsp method + nsp (join '', '' args)"
  by (simp add: boolean_source_def is_space_def)


lemma transform_body_cong [fundef_cong]:
  assumes "e = e'"
    and pv: "\<And>a. nsp a < nsp e' \<Longrightarrow> pv a = pv' a"
    and pbe: "\<And>a. nsp a \<le> nsp e' \<Longrightarrow> pbe a = pbe' a"
  shows "transform_body bk pv pbe e = transform_body bk pv' pbe' e'"
proof (cases "rx_transform (strip e')")
  case None
  then show ?thesis using assms(1) by (simp add: transform_body_def)
next
  case (Some gs)
  obtain g1 g2 where gs: "gs = (g1, g2)" by (cases gs)
  have g: "length g1 + nsp g2 + 2 \<le> nsp e'"
    using rx_transform_nsp [of "strip e'" g1 g2] Some gs by simp
  show ?thesis
  proof (cases "parse_method_call (py_upper g1) (strip g2)")
    case (Inl err)
    then show ?thesis using assms(1) Some gs by (simp add: transform_body_def)
  next
    case (Inr ma)
    obtain mth args where ma: "ma = (mth, args)" by (cases ma)
    have a: "\<forall>a \<in> set args. nsp a + 2 + nsp mth \<le> nsp g2"
      and j: "nsp (join '', '' args) + 2 + nsp mth \<le> nsp g2"
      using parse_method_call_nsp [of "py_upper g1" "strip g2" mth args] Inr ma by simp_all
    have 1: "\<And>a. a \<in> set args \<Longrightarrow> pv a = pv' a"
      using a g by (intro pv) fastforce
    have 2: "\<And>a. a \<in> set args \<Longrightarrow> pbe a = pbe' a"
      using a g by (intro pbe) fastforce
    have 3: "pbe (boolean_source mth args) = pbe' (boolean_source mth args)"
      if "py_upper g1 = ''BOOLEAN''"
    proof (rule pbe)
      have "length (py_upper g1) = 7" using that by simp
      then have "length g1 = 7" by (simp add: py_upper_def)
      then show "nsp (boolean_source mth args) \<le> nsp e'"
        using j g by (simp add: nsp_boolean_source)
    qed
    have "dispatch bk pv pbe (py_upper g1) mth args = dispatch bk pv' pbe' (py_upper g1) mth args"
      using 1 2 3 by (rule dispatch_cong)
    then show ?thesis using assms(1) Some gs Inr ma by (simp add: transform_body_def)
  qed
qed


lemma unpack2_Inr: "unpack2 xs = Inr (a, b) \<longleftrightarrow> xs = [a, b]"
proof (cases xs)
  case Nil
  then show ?thesis by (simp add: unpack2_def)
next
  case (Cons x ys)
  show ?thesis
  proof (cases ys)
    case Nil
    with Cons show ?thesis by (simp add: unpack2_def)
  next
    case (Cons y zs)
    with \<open>xs = x # ys\<close> show ?thesis by (cases zs) (auto simp: unpack2_def)
  qed
qed

lemma call_cmp_cong:
  assumes "\<And>a. a \<in> set args \<Longrightarrow> pv a = pv' a"
  shows "call_cmp pv bop args = call_cmp pv' bop args"
proof (cases "unpack2 args")
  case (Inl e)
  then show ?thesis by (simp add: call_cmp_def)
next
  case (Inr ab)
  obtain a b where ab: "ab = (a, b)" by (cases ab)
  with Inr have "args = [a, b]" by (simp add: unpack2_Inr)
  then have "pv a = pv' a" "pv b = pv' b" using assms by simp_all
  then show ?thesis using Inr ab by (simp add: call_cmp_def)
qed

lemma op_cmp_cong:
  assumes "\<And>a. a \<in> set args \<Longrightarrow> pv a = pv' a"
  shows "op_cmp pv bop args = op_cmp pv' bop args"
proof (cases "unpack2 args")
  case (Inl e)
  then show ?thesis by (simp add: op_cmp_def)
next
  case (Inr ab)
  obtain a b where ab: "ab = (a, b)" by (cases ab)
  with Inr have "args = [a, b]" by (simp add: unpack2_Inr)
  then have "pv a = pv' a" "pv b = pv' b" using assms by simp_all
  then show ?thesis using Inr ab by (simp add: op_cmp_def)
qed

lemma rx_call_args_nsp:
  assumes "rx_call (strip y) = Some (m, as)" and "a \<in> set (split_args as)"
  shows "nsp a < nsp y"
proof -
  have "length m + nsp as + 2 \<le> nsp y" using rx_call_nsp [OF assms(1)] by simp
  moreover have "nsp a \<le> nsp as" using assms(2) by (rule split_args_nsp)
  ultimately show ?thesis by simp
qed

lemma startswith_append: "startswith s p \<Longrightarrow> s = p @ drop (length p) s"
  by (metis append_take_drop_id startswith_def)

lemma infix_op_nsp: "op \<in> set infix_ops \<Longrightarrow> 0 < nsp op"
  by (auto simp: infix_ops_def is_space_def)

lemma boolean_body_cong [fundef_cong]:
  assumes "e = e'"
    and pv: "\<And>a. nsp a < nsp e' \<Longrightarrow> pv a = pv' a"
    and pbe: "\<And>a. nsp a < nsp e' \<Longrightarrow> pbe a = pbe' a"
  shows "boolean_body pv pbe e = boolean_body pv' pbe' e'"
proof -
  define x where "x = strip e'"
  have nx: "nsp x = nsp e'" by (simp add: x_def)
  have b1: "pv a = pv' a"
    if "rx_call (strip (butlast (drop 8 x))) = Some (m, as)" "a \<in> set (split_args as)" for m as a
  proof (rule pv)
    have "nsp a < nsp (butlast (drop 8 x))" using that by (rule rx_call_args_nsp)
    also have "\<dots> \<le> nsp x" using nsp_butlast_le [of "drop 8 x"] nsp_drop_le [of 8 x] by simp
    finally show "nsp a < nsp e'" using nx by simp
  qed
  have c1: "call_cmp pv bop (split_args as) = call_cmp pv' bop (split_args as)"
    "op_cmp pv bop (split_args as) = op_cmp pv' bop (split_args as)"
    if "rx_call (strip (butlast (drop 8 x))) = Some (m, as)" for m as bop
    using b1 [OF that] by (auto intro: call_cmp_cong op_cmp_cong)
  have b2: "nsp a < nsp e'"
    if "startswith x ''IF(''" "a \<in> set (split_args (strip (butlast (drop 3 x))))" for a
  proof -
    have "nsp a \<le> nsp (strip (butlast (drop 3 x)))" using that(2) by (rule split_args_nsp)
    also have "\<dots> \<le> nsp (drop 3 x)" using nsp_butlast_le [of "drop 3 x"] by simp
    also have "\<dots> < nsp x"
    proof -
      have "length ''IF('' = 3" by simp
      then have "x = ''IF('' @ drop 3 x" using startswith_append [OF that(1)] by metis
      then have "nsp x = nsp ''IF('' + nsp (drop 3 x)" by (metis nsp_append)
      then show ?thesis by (simp add: is_space_def)
    qed
    finally show ?thesis using nx by simp
  qed
  have c2: "conditional pv pbe (split_args (strip (butlast (drop 3 x))))
            = conditional pv' pbe' (split_args (strip (butlast (drop 3 x))))"
    if "startswith x ''IF(''"
    using b2 [OF that] pv pbe by (intro conditional_cong) auto
  have b3: "pv a = pv' a"
    if "rx_call (strip x) = Some (m, as)" "a \<in> set (split_args as)" for m as a
    using rx_call_args_nsp [OF that] nx by (intro pv) simp
  have c3: "call_cmp pv bop (split_args as) = call_cmp pv' bop (split_args as)"
    "op_cmp pv bop (split_args as) = op_cmp pv' bop (split_args as)"
    if "rx_call (strip x) = Some (m, as)" for m as bop
    using b3 [OF that] by (auto intro: call_cmp_cong op_cmp_cong)
  have c4: "pv (strip l) = pv' (strip l)" "pv (strip r) = pv' (strip r)"
    if "find (contains x) infix_ops = Some op" "split_once x op = Some (l, r)" for op l r
  proof -
    have "op \<in> set infix_ops" using that(1) by (auto simp: find_Some_iff)
    then have "0 < nsp op" by (rule infix_op_nsp)
    moreover have "x = l @ op @ r" using that(2) by (rule split_once_append)
    then have "nsp x = nsp l + nsp op + nsp r" by (metis nsp_append add.assoc)
    ultimately have "nsp (strip l) < nsp e'" "nsp (strip r) < nsp e'" using nx by simp_all
    then show "pv (strip l) = pv' (strip l)" "pv (strip r) = pv' (strip r)"
      by (auto intro: pv)
  qed
  show ?thesis
    unfolding boolean_body_def Let_def assms(1) x_def [symmetric]
    by (auto split: option.splits simp: c1 c2 c3 c4)
qed


subsection \<open>The three parsers\<close>

text \<open>
  \<^verbatim>\<open>parse_value\<close>, \<^verbatim>\<open>parse_transform_expression\<close> and \<^verbatim>\<open>parse_boolean_expr\<close>.
\<close>

function parse_value :: "backend \<Rightarrow> string \<Rightarrow> error + parsed"
  and parse_transform_expression :: "backend \<Rightarrow> string \<Rightarrow> error + parsed"
  and parse_boolean_expr :: "backend \<Rightarrow> string \<Rightarrow> error + expr"
where
  "parse_value bk token0 =
     (let token = strip token0
      in if startswith token ''trns:'' then parse_transform_expression bk token
         else value_token bk token)"
| "parse_transform_expression bk expr =
     transform_body bk (parse_value bk) (parse_boolean_expr bk) expr"
| "parse_boolean_expr bk expr =
     boolean_body (parse_value bk) (parse_boolean_expr bk) expr"
  by pat_completeness auto
termination
  by (relation "measure (\<lambda>x. case x of
         Inl (bk, s) \<Rightarrow> 3 * nsp s + 2
       | Inr (Inl (bk, s)) \<Rightarrow> 3 * nsp s + 1
       | Inr (Inr (bk, s)) \<Rightarrow> 3 * nsp s)") auto

section \<open>Tokens that are neither numbers nor column calls\<close>

text \<open>
  Facts about the characters of tokens: a string that \<^verbatim>\<open>float\<close> accepts has only digits,
  letters, underscores, signs and a point, and a string of the form \<^verbatim>\<open>OP[...]\<close> has none
  of the prefixes that the value parser looks for.
\<close>

definition float_char :: "char \<Rightarrow> bool" where
  "float_char c \<longleftrightarrow> is_word c \<or> c = CHR ''.'' \<or> c = CHR ''+'' \<or> c = CHR ''-''"

lemma digit_float_char: "is_digit c \<Longrightarrow> float_char c"
  by (simp add: float_char_def is_word_def)

lemma float_char_marks:
  "float_char (CHR ''_'')" "float_char (CHR ''.'')" "float_char (CHR ''e'')"
  "float_char (CHR ''E'')" "float_char (CHR ''+'')" "float_char (CHR ''-'')"
  by (simp_all add: float_char_def is_word_def is_lower_char_def is_upper_char_def)

lemma digitpart_more_chars:
  "digitpart_more acc s = (ds, r) \<Longrightarrow> \<exists>p. s = p @ r \<and> (\<forall>c \<in> set p. float_char c)"
proof (induction acc s arbitrary: ds r rule: digitpart_more.induct)
  case (1 acc c d s)
  show ?case
  proof (cases "is_digit c")
    case True
    with 1 obtain p where "d # s = p @ r" "\<forall>c \<in> set p. float_char c" by auto
    then have "c # d # s = (c # p) @ r \<and> (\<forall>x \<in> set (c # p). float_char x)"
      using True by (simp add: digit_float_char)
    then show ?thesis by blast
  next
    case False
    show ?thesis
    proof (cases "c = CHR ''_'' \<and> is_digit d")
      case True
      with 1 False obtain p where "s = p @ r" "\<forall>c \<in> set p. float_char c" by auto
      then have "c # d # s = (c # d # p) @ r \<and> (\<forall>x \<in> set (c # d # p). float_char x)"
        using True by (simp add: digit_float_char float_char_marks)
      then show ?thesis by blast
    next
      case F2: False
      with 1 False have "r = c # d # s" by auto
      then show ?thesis by auto
    qed
  qed
next
  case (2 acc c)
  then show ?case
    by (cases "is_digit c") (auto simp: digit_float_char intro: exI [of _ "[c]"])
next
  case (3 acc)
  then show ?case by auto
qed

lemma digitpart_chars:
  "digitpart s = Some (ds, r) \<Longrightarrow> \<exists>p. s = p @ r \<and> (\<forall>c \<in> set p. float_char c)"
proof -
  assume a: "digitpart s = Some (ds, r)"
  then obtain c t where s: "s = c # t" and d: "is_digit c" and m: "digitpart_more [c] t = (ds, r)"
    by (auto simp: digitpart_def split: list.splits if_splits)
  from m obtain p where "t = p @ r" "\<forall>c \<in> set p. float_char c"
    using digitpart_more_chars by blast
  then have "s = (c # p) @ r \<and> (\<forall>x \<in> set (c # p). float_char x)"
    using s d by (simp add: digit_float_char)
  then show ?thesis by blast
qed

lemma digitpart_all_chars: "digitpart s = Some (ds, []) \<Longrightarrow> \<forall>c \<in> set s. float_char c"
  using digitpart_chars [of s ds "[]"] by auto

lemma exponent_chars: "exponent s = Some n \<Longrightarrow> \<forall>c \<in> set s. float_char c"
proof (cases s)
  case Nil
  then show ?thesis by simp
next
  case (Cons e r)
  assume a: "exponent s = Some n"
  let ?r' = "case r of c # t \<Rightarrow> if c = CHR ''-'' \<or> c = CHR ''+'' then t else r | [] \<Rightarrow> r"
  from a Cons have e: "e = CHR ''e'' \<or> e = CHR ''E''"
    by (auto simp: exponent_def split: if_splits)
  from a Cons e obtain ds where "digitpart ?r' = Some (ds, [])"
    by (auto simp: exponent_def Let_def split: option.splits list.splits if_splits)
  then have "\<forall>c \<in> set ?r'. float_char c" by (rule digitpart_all_chars)
  then have "\<forall>c \<in> set r. float_char c"
    by (cases r) (auto simp: float_char_marks split: if_splits)
  then show ?thesis using Cons e by (auto simp: float_char_marks)
qed

lemma map_option_SomeD: "map_option f x = Some y \<Longrightarrow> \<exists>z. x = Some z"
  by (cases x) auto

lemma decimal_chars: "decimal s = Some q \<Longrightarrow> \<forall>c \<in> set s. float_char c"
proof -
  assume a: "decimal s = Some q"
  show ?thesis
  proof (cases "digitpart s")
    case None
    with a have d: "(case s of
             c # r1 \<Rightarrow>
               if c = CHR ''.'' then
                 (case digitpart r1 of
                    Some (fp, r2) \<Rightarrow>
                      map_option (scale10 (of_nat (digits_val fp) / 10 ^ length fp)) (exponent r2)
                  | None \<Rightarrow> None)
               else None
           | [] \<Rightarrow> None) = Some q"
      by (simp add: decimal_def)
    then obtain c r1 where s: "s = c # r1" by (cases s) auto
    with d have c: "c = CHR ''.''" by (simp split: if_splits)
    with d s obtain fr where f: "digitpart r1 = Some fr" by (cases "digitpart r1") auto
    obtain fp r2 where fr: "fr = (fp, r2)" by (cases fr)
    with d s c f obtain n where n: "exponent r2 = Some n" by (auto dest: map_option_SomeD)
    obtain p where "r1 = p @ r2" "\<forall>c \<in> set p. float_char c"
      using digitpart_chars f fr by blast
    then show ?thesis using s c exponent_chars [OF n] by (auto simp: float_char_marks)
  next
    case (Some ipr)
    obtain ip r where ipr: "ipr = (ip, r)" by (cases ipr)
    from Some ipr obtain p where p: "s = p @ r" "\<forall>c \<in> set p. float_char c"
      using digitpart_chars by blast
    have "\<forall>c \<in> set r. float_char c"
    proof (cases r)
      case Nil
      then show ?thesis by simp
    next
      case (Cons c r1)
      show ?thesis
      proof (cases "c = CHR ''.''")
        case True
        show ?thesis
        proof (cases "digitpart r1")
          case None
          with a Some ipr Cons True obtain n where "exponent r1 = Some n"
            by (auto simp: decimal_def dest: map_option_SomeD)
          then show ?thesis using Cons True exponent_chars by (auto simp: float_char_marks)
        next
          case S2: (Some fr)
          obtain fp r2 where fr: "fr = (fp, r2)" by (cases fr)
          with a Some ipr Cons True S2 obtain n where "exponent r2 = Some n"
            by (auto simp: decimal_def dest: map_option_SomeD)
          moreover obtain p2 where "r1 = p2 @ r2" "\<forall>c \<in> set p2. float_char c"
            using digitpart_chars S2 fr by blast
          ultimately show ?thesis using Cons True exponent_chars [of r2 n]
            by (auto simp: float_char_marks)
        qed
      next
        case False
        with a Some ipr Cons obtain n where "exponent r = Some n"
          by (auto simp: decimal_def dest: map_option_SomeD)
        then show ?thesis by (rule exponent_chars)
      qed
    qed
    then show ?thesis using p by auto
  qed
qed

lemma lower_char_cases: "lower_char c = c \<or> (is_upper_char c \<and> is_lower_char (lower_char c))"
proof (cases "map_of (zip ''ABCDEFGHIJKLMNOPQRSTUVWXYZ'' ''abcdefghijklmnopqrstuvwxyz'') c")
  case None
  show ?thesis unfolding lower_char_def None by simp
next
  case (Some d)
  then have "(c, d) \<in> set (zip ''ABCDEFGHIJKLMNOPQRSTUVWXYZ'' ''abcdefghijklmnopqrstuvwxyz'')"
    by (rule map_of_SomeD)
  then have "c \<in> set ''ABCDEFGHIJKLMNOPQRSTUVWXYZ''" "d \<in> set ''abcdefghijklmnopqrstuvwxyz''"
    by (rule set_zip_leftD, rule set_zip_rightD)
  then have "is_upper_char c" "is_lower_char d"
    unfolding is_upper_char_def is_lower_char_def by blast+
  then show ?thesis unfolding lower_char_def Some by simp
qed

lemma lower_char_letter: "is_lower_char (lower_char c) \<Longrightarrow> is_word c"
  using lower_char_cases [of c] by (auto simp: is_word_def)

lemma lower_char_other: "\<not> is_lower_char d \<Longrightarrow> lower_char c = d \<Longrightarrow> c = d"
  using lower_char_cases [of c] by auto

lemma lower_char_float: "lower_char c \<in> set ''infaty'' \<Longrightarrow> float_char c"
proof -
  assume "lower_char c \<in> set ''infaty''"
  then have "is_lower_char (lower_char c)" by (auto simp: is_lower_char_def)
  then show ?thesis by (simp add: float_char_def lower_char_letter)
qed

lemma py_float_chars:
  assumes "py_float s = Some x"
  shows "\<forall>c \<in> set (strip s). float_char c"
proof -
  let ?t = "strip s"
  let ?u = "case ?t of c # r \<Rightarrow> if c = CHR ''-'' \<or> c = CHR ''+'' then r else ?t | [] \<Rightarrow> ?t"
  have u: "\<forall>c \<in> set ?u. float_char c"
  proof (cases "py_lower ?u = ''inf'' \<or> py_lower ?u = ''infinity'' \<or> py_lower ?u = ''nan''")
    case True
    then have "\<forall>d \<in> set (py_lower ?u). d \<in> set ''infaty''" by auto
    then have "\<forall>c \<in> set ?u. lower_char c \<in> set ''infaty''" by (simp add: py_lower_def)
    then show ?thesis using lower_char_float by blast
  next
    case False
    with assms obtain q where "decimal ?u = Some q"
      by (auto simp: py_float_def Let_def dest: map_option_SomeD)
    then show ?thesis by (rule decimal_chars)
  qed
  show ?thesis
  proof (cases ?t)
    case Nil
    then show ?thesis by simp
  next
    case (Cons c r)
    with u show ?thesis by (auto simp: float_char_marks split: if_splits)
  qed
qed

lemma bracket_not_float: "\<not> float_char (CHR ''['')"
  by (simp add: float_char_def is_word_def is_upper_char_def is_lower_char_def is_digit_def)

lemma not_number_with_bracket: "CHR ''['' \<in> set (strip s) \<Longrightarrow> \<not> is_number s"
  using py_float_chars bracket_not_float by (fastforce simp: is_number_def)

lemma takeWhile_stop:
  "\<forall>c \<in> set p. P c \<Longrightarrow> \<not> P x \<Longrightarrow> takeWhile P (p @ x # r) = p \<and> dropWhile P (p @ x # r) = x # r"
  by (induction p) auto

lemma rx_op_shape:
  assumes "rx_op t = Some (w, g)"
  shows "\<exists>d. t = w @ d \<and> w \<noteq> [] \<and> (\<forall>c \<in> set w. is_word c) \<and> CHR ''['' \<in> set d
             \<and> lstrip (dropWhile is_word t) \<noteq> [] \<and> hd (lstrip (dropWhile is_word t)) = CHR ''[''"
proof -
  let ?d = "dropWhile is_word t"
  from assms obtain body where r: "lstrip ?d = CHR ''['' # body"
    and w: "w = takeWhile is_word t" and wn: "w \<noteq> []"
    by (auto simp: rx_op_def Let_def split: if_splits list.splits)
  have "set (lstrip ?d) \<subseteq> set ?d" unfolding lstrip_def by (auto dest: set_dropWhileD)
  then have 1: "CHR ''['' \<in> set ?d" using r by auto
  have 2: "t = w @ ?d" unfolding w by simp
  have 3: "\<forall>c \<in> set w. is_word c" unfolding w by (auto dest: set_takeWhileD)
  have 4: "lstrip ?d \<noteq> []" "hd (lstrip ?d) = CHR ''[''" unfolding r by simp_all
  show ?thesis using 1 2 3 4 wn by blast
qed

lemma rx_op_no_mark:
  assumes "rx_op t = Some (w, g)" and "t = p @ x # r" and "\<forall>c \<in> set p. is_word c"
    and "\<not> is_word x" and "x \<noteq> CHR ''[''" and "\<not> is_space x"
  shows False
proof -
  have "dropWhile is_word (p @ x # r) = x # r"
    using takeWhile_stop [of p is_word x r] assms(3,4) by simp
  then have "dropWhile is_word t = x # r" unfolding assms(2) .
  then have "lstrip (dropWhile is_word t) = x # r" using assms(6) by (simp add: lstrip_def)
  moreover have "hd (lstrip (dropWhile is_word t)) = CHR ''[''"
    using rx_op_shape [OF assms(1)] by blast
  ultimately show False using assms(5) by simp
qed

lemma take5_shape: "length (take 5 t) = 5 \<Longrightarrow> \<exists>a b c d x r. t = [a, b, c, d] @ x # r \<and> take 5 t = [a, b, c, d, x]"
proof -
  assume "length (take 5 t) = 5"
  then have l: "5 \<le> length t" by simp
  then obtain a t1 where 1: "t = a # t1" by (cases t) auto
  with l obtain b t2 where 2: "t1 = b # t2" by (cases t1) auto
  with 1 l obtain c t3 where 3: "t2 = c # t3" by (cases t2) auto
  with 1 2 l obtain d t4 where 4: "t3 = d # t4" by (cases t3) auto
  with 1 2 3 l obtain x r where 5: "t4 = x # r" by (cases t4) auto
  show ?thesis using 1 2 3 4 5 by (simp add: numeral_eq_Suc)
qed

lemma startswith_split4:
  "startswith t [a, b, c, d, x] \<Longrightarrow> t = [a, b, c, d] @ x # drop 5 t"
proof -
  assume "startswith t [a, b, c, d, x]"
  then have "take 5 t = [a, b, c, d, x]" by (simp add: startswith_def eval_nat_numeral)
  then have "t = [a, b, c, d, x] @ drop 5 t" by (metis append_take_drop_id)
  then show ?thesis by simp
qed



lemma rx_op_not_prefixed:
  assumes "rx_op t = Some (w, g)"
  shows "\<not> startswith t ''trns:''" and "rx_attr_quoted t = None" and "rx_attr_bare t = None"
proof -
  show "\<not> startswith t ''trns:''"
  proof
    assume "startswith t ''trns:''"
    then have "t = ''trns'' @ CHR '':'' # drop 5 t" by (rule startswith_split4)
    then show False
      using rx_op_no_mark [OF assms, of "''trns''" "CHR '':''" "drop 5 t"]
      by (simp add: is_word_def is_space_def is_upper_char_def is_lower_char_def is_digit_def)
  qed
  show "rx_attr_quoted t = None"
  proof (rule ccontr)
    assume "rx_attr_quoted t \<noteq> None"
    then have p: "py_lower (take 5 t) = ''attr(''"
      by (auto simp: rx_attr_quoted_def split: if_splits)
    then have "length (py_lower (take 5 t)) = 5" by simp
    then have "length (take 5 t) = 5" by (simp add: py_lower_def)
    then obtain a b c d x r where t: "t = [a, b, c, d] @ x # r" "take 5 t = [a, b, c, d, x]"
      using take5_shape by blast
    with p have l: "lower_char a = CHR ''a''" "lower_char b = CHR ''t''" "lower_char c = CHR ''t''"
      "lower_char d = CHR ''r''" "lower_char x = CHR ''(''" by (simp_all add: py_lower_def)
    then have "is_word a" "is_word b" "is_word c" "is_word d"
      by (auto intro!: lower_char_letter simp: is_lower_char_def)
    moreover have "x = CHR ''(''" using l(5) by (rule lower_char_other [rotated]) (simp add: is_lower_char_def)
    ultimately show False
      using rx_op_no_mark [OF assms t(1)]
      by (simp add: is_word_def is_space_def is_upper_char_def is_lower_char_def is_digit_def)
  qed
  show "rx_attr_bare t = None"
  proof (rule ccontr)
    assume "rx_attr_bare t \<noteq> None"
    then have "startswith t ''ATTR(''" by (auto simp: rx_attr_bare_def split: if_splits)
    then have "t = ''ATTR'' @ CHR ''('' # drop 5 t" by (rule startswith_split4)
    then show False
      using rx_op_no_mark [OF assms, of "''ATTR''" "CHR ''(''" "drop 5 t"]
      by (simp add: is_word_def is_space_def is_upper_char_def is_lower_char_def is_digit_def)
  qed
qed

lemma word_not_quote: "is_word c \<Longrightarrow> \<not> is_quote c"
  by (auto simp: is_word_def is_quote_def is_upper_char_def is_lower_char_def is_digit_def)

lemma lower_bracket: "CHR ''['' \<in> set t \<Longrightarrow> CHR ''['' \<in> set (py_lower t)"
proof -
  assume "CHR ''['' \<in> set t"
  then have "lower_char (CHR ''['') \<in> set (py_lower t)" by (simp add: py_lower_def)
  moreover have "lower_char (CHR ''['') = CHR ''[''" by (simp add: lower_char_def)
  ultimately show ?thesis by simp
qed

lemma value_token_op_form:
  assumes "rx_op t = Some (w, g)" and st: "strip t = t"
  shows "value_token bk t = Inr (PExpr (Col t))"
proof -
  obtain d where t: "t = w @ d" and wn: "w \<noteq> []" and ww: "\<forall>c \<in> set w. is_word c"
    and br: "CHR ''['' \<in> set d"
    using rx_op_shape [OF assms(1)] by blast
  have b: "CHR ''['' \<in> set t" using t br by simp
  have pa: "parse_attr t = None"
    using rx_op_not_prefixed(2,3) [OF assms(1)] by (simp add: parse_attr_def st)
  have lo: "py_lower t \<noteq> ''true''" "py_lower t \<noteq> ''false''"
    using lower_bracket [OF b] by auto
  have "hd t = hd w" using t wn by simp
  then have "is_word (hd t)" using ww wn by simp
  then have nq: "\<not> is_quote (hd t)" by (rule word_not_quote)
  have nn: "\<not> is_number t" using b st not_number_with_bracket [of t] by simp
  have "try_parse_literal bk t = Inr None"
    using nq nn lo by (simp add: try_parse_literal_def st)
  then show ?thesis using pa lo by (simp add: value_token_def)
qed

section \<open>A backend for the examples\<close>

text \<open>
  The examples need one concrete backend. In this one an expression has no \<^verbatim>\<open>dtype\<close>
  attribute, its printed form starts with \<^verbatim>\<open>col(\<close> when it is a chain of methods on a
  column, every method call is accepted, an integer literal outside the signed 64-bit
  range is refused, and no \<open>Call\<close> node can be evaluated.
\<close>

fun root_is_col :: "expr \<Rightarrow> bool" where
  "root_is_col (Col n) = True"
| "root_is_col (Lit v) = False"
| "root_is_col (Alias n e) = root_is_col e"
| "root_is_col (BinOp bop x y) = False"
| "root_is_col (Not e) = root_is_col e"
| "root_is_col (When c t f) = False"
| "root_is_col (Call n []) = False"
| "root_is_col (Call n (e # es)) = root_is_col e"

definition sample_backend :: backend where
  "sample_backend =
     \<lparr>dtype_is_utf8 = (\<lambda>e. Inl AttributeError),
      repr_starts_col = root_is_col,
      today = VStr ''2026-01-01'',
      call_error = (\<lambda>name es. None),
      wide_int_lit = (\<lambda>n. Inl OverflowError),
      prim = (\<lambda>name vs. Inl BackendError)\<rparr>"

section \<open>How far the value parser recurses\<close>

text \<open>
  \<^verbatim>\<open>parse_value\<close> hands a token to the expression parser exactly when the trimmed token
  starts with the lower-case prefix \<^verbatim>\<open>trns:\<close>. A token of the form \<^verbatim>\<open>OP[...]\<close> without
  the prefix (an identifier, optional white space, a bracketed text) never reaches the
  expression parser, whatever \<^verbatim>\<open>OP\<close> is: it comes back as a column reference named by
  the whole trimmed token.
\<close>

lemma parse_value_nesting:
  "(startswith (strip token) ''trns:'' \<longrightarrow>
      parse_value bk token = parse_transform_expression bk (strip token))
   \<and> (rx_op (strip token) \<noteq> None \<longrightarrow>
      parse_value bk token = Inr (PExpr (Col (strip token))))"
proof (intro conjI impI)
  assume "startswith (strip token) ''trns:''"
  then show "parse_value bk token = parse_transform_expression bk (strip token)" by simp
next
  assume "rx_op (strip token) \<noteq> None"
  then obtain w g where rx: "rx_op (strip token) = Some (w, g)" by auto
  then have "\<not> startswith (strip token) ''trns:''" by (rule rx_op_not_prefixed(1))
  moreover have "value_token bk (strip token) = Inr (PExpr (Col (strip token)))"
    using rx by (rule value_token_op_form) (rule strip_idem)
  ultimately show "parse_value bk token = Inr (PExpr (Col (strip token)))" by simp
qed

section \<open>Tables and the evaluation of expressions\<close>

text \<open>
  A table is the list of its named columns, all of one length. The backend's evaluation
  is modelled for what the pipeline uses: column references, literals, aliases,
  comparisons, the logical connectives and the conditional are evaluated here, with the
  backend's rules for missing values (a comparison with a missing operand is missing,
  the connectives follow three-valued logic); arithmetic and the \<open>Call\<close> nodes are
  delegated to \<open>prim\<close>. A literal evaluates to a single value that is repeated to the
  height of the columns it is combined with.
\<close>

type_synonym dataframe = "(string \<times> value list) list"

definition columns :: "dataframe \<Rightarrow> string list" where
  "columns df = map fst df"

definition height :: "dataframe \<Rightarrow> nat" where
  "height df = (case df of [] \<Rightarrow> 0 | c # _ \<Rightarrow> length (snd c))"

datatype series = Scalar "value" | Column "value list"

definition is_scalar :: "series \<Rightarrow> bool" where
  "is_scalar s = (case s of Scalar _ \<Rightarrow> True | Column _ \<Rightarrow> False)"

definition rows_of :: "nat \<Rightarrow> series \<Rightarrow> value list" where
  "rows_of h s = (case s of Scalar v \<Rightarrow> replicate h v | Column vs \<Rightarrow> vs)"

definition scalar_of :: "series \<Rightarrow> value" where
  "scalar_of s = (case s of Scalar v \<Rightarrow> v | Column vs \<Rightarrow> VNull)"

text \<open>
  A row-wise function applied to operand series: on literals alone the result is a
  literal, otherwise a column of the table's height.
\<close>

definition lift :: "nat \<Rightarrow> (value list \<Rightarrow> error + value) \<Rightarrow> series list \<Rightarrow> error + series" where
  "lift h f ss =
     (if list_all is_scalar ss then bind_r (f (map scalar_of ss)) (\<lambda>v. Inr (Scalar v))
      else bind_r (each (\<lambda>i. f (map (\<lambda>s. rows_of h s ! i) ss)) [0..<h]) (\<lambda>vs. Inr (Column vs)))"

text \<open>The order of floats in comparisons: NaN is equal to itself and above every number.\<close>

definition float_key :: "pyfloat \<Rightarrow> nat \<times> rat" where
  "float_key x = (case x of NegInf \<Rightarrow> (0, 0) | Finite r \<Rightarrow> (1, r) | PosInf \<Rightarrow> (2, 0) | NaN \<Rightarrow> (3, 0))"

definition key_less :: "nat \<times> rat \<Rightarrow> nat \<times> rat \<Rightarrow> bool" where
  "key_less a b \<longleftrightarrow> fst a < fst b \<or> (fst a = fst b \<and> snd a < snd b)"

fun string_less :: "string \<Rightarrow> string \<Rightarrow> bool" where
  "string_less [] [] = False"
| "string_less [] (d # t) = True"
| "string_less (c # s) [] = False"
| "string_less (c # s) (d # t) =
     ((of_char c :: nat) < of_char d \<or> (c = d \<and> string_less s t))"

definition compare :: "binop \<Rightarrow> bool \<Rightarrow> bool \<Rightarrow> bool" where
  "compare bop lt eq =
     (if bop = Eq then eq else if bop = Ne then \<not> eq else if bop = Lt then lt
      else if bop = Le then lt \<or> eq else if bop = Gt then \<not> lt \<and> \<not> eq else \<not> lt)"

text \<open>
  A comparison of two values. Integers and floats compare as floats; values of
  different kinds otherwise do not compare, which the backend reports as an error.
\<close>

fun cmp_value :: "binop \<Rightarrow> value \<Rightarrow> value \<Rightarrow> error + value" where
  "cmp_value bop VNull y = Inr VNull"
| "cmp_value bop x VNull = Inr VNull"
| "cmp_value bop (VInt a) (VInt b) = Inr (VBool (compare bop (a < b) (a = b)))"
| "cmp_value bop (VFloat a) (VFloat b) =
     Inr (VBool (compare bop (key_less (float_key a) (float_key b)) (a = b)))"
| "cmp_value bop (VInt a) (VFloat b) =
     Inr (VBool (compare bop (key_less (float_key (to_double (of_int a))) (float_key b))
                             (to_double (of_int a) = b)))"
| "cmp_value bop (VFloat a) (VInt b) =
     Inr (VBool (compare bop (key_less (float_key a) (float_key (to_double (of_int b))))
                             (a = to_double (of_int b))))"
| "cmp_value bop (VStr a) (VStr b) = Inr (VBool (compare bop (string_less a b) (a = b)))"
| "cmp_value bop (VBool a) (VBool b) = Inr (VBool (compare bop (\<not> a \<and> b) (a = b)))"
| "cmp_value bop x y = Inl BackendError"

fun and_value :: "value \<Rightarrow> value \<Rightarrow> error + value" where
  "and_value (VBool a) (VBool b) = Inr (VBool (a \<and> b))"
| "and_value (VBool a) VNull = Inr (if a then VNull else VBool False)"
| "and_value VNull (VBool b) = Inr (if b then VNull else VBool False)"
| "and_value VNull VNull = Inr VNull"
| "and_value x y = Inl BackendError"

fun or_value :: "value \<Rightarrow> value \<Rightarrow> error + value" where
  "or_value (VBool a) (VBool b) = Inr (VBool (a \<or> b))"
| "or_value (VBool a) VNull = Inr (if a then VBool True else VNull)"
| "or_value VNull (VBool b) = Inr (if b then VBool True else VNull)"
| "or_value VNull VNull = Inr VNull"
| "or_value x y = Inl BackendError"

definition binop_name :: "binop \<Rightarrow> string" where
  "binop_name bop =
     (if bop = Add then ''add'' else if bop = Sub then ''sub'' else if bop = Mul then ''mul''
      else if bop = Div then ''truediv'' else ''mod'')"

definition binop_value :: "backend \<Rightarrow> binop \<Rightarrow> value \<Rightarrow> value \<Rightarrow> error + value" where
  "binop_value bk bop x y =
     (if bop \<in> {Eq, Ne, Gt, Lt, Ge, Le} then cmp_value bop x y
      else if bop = And then and_value x y
      else if bop = Or then or_value x y
      else prim bk (binop_name bop) [x, y])"

text \<open>\<^verbatim>\<open>~e\<close>: the negation of a Boolean, missing on a missing value.\<close>

fun not_value :: "backend \<Rightarrow> value \<Rightarrow> error + value" where
  "not_value bk (VBool b) = Inr (VBool (\<not> b))"
| "not_value bk VNull = Inr VNull"
| "not_value bk x = prim bk ''not'' [x]"

text \<open>\<^verbatim>\<open>when(c).then(t).otherwise(f)\<close>: \<open>t\<close> where \<open>c\<close> is true, \<open>f\<close> elsewhere.\<close>

fun when_value :: "value \<Rightarrow> value \<Rightarrow> value \<Rightarrow> error + value" where
  "when_value (VBool c) t f = Inr (if c then t else f)"
| "when_value VNull t f = Inr f"
| "when_value c t f = Inl BackendError"

declare each_cong [fundef_cong]

fun eval_expr :: "backend \<Rightarrow> dataframe \<Rightarrow> expr \<Rightarrow> error + series" where
  "eval_expr bk df (Col n) =
     (case map_of df n of Some vs \<Rightarrow> Inr (Column vs) | None \<Rightarrow> Inl BackendError)"
| "eval_expr bk df (Lit v) = Inr (Scalar v)"
| "eval_expr bk df (Alias n e) = eval_expr bk df e"
| "eval_expr bk df (BinOp bop x y) =
     bind_r (eval_expr bk df x) (\<lambda>a. bind_r (eval_expr bk df y) (\<lambda>b.
       lift (height df) (\<lambda>vs. binop_value bk bop (vs ! 0) (vs ! 1)) [a, b]))"
| "eval_expr bk df (Not e) =
     bind_r (eval_expr bk df e) (\<lambda>a. lift (height df) (\<lambda>vs. not_value bk (vs ! 0)) [a])"
| "eval_expr bk df (When c t f) =
     bind_r (eval_expr bk df c) (\<lambda>a. bind_r (eval_expr bk df t) (\<lambda>b.
     bind_r (eval_expr bk df f) (\<lambda>d.
       lift (height df) (\<lambda>vs. when_value (vs ! 0) (vs ! 1) (vs ! 2)) [a, b, d])))"
| "eval_expr bk df (Call name es) =
     bind_r (each (eval_expr bk df) es) (\<lambda>ss. lift (height df) (prim bk name) ss)"

text \<open>The name of the column an expression produces: its alias, else its leftmost root.\<close>

fun out_name :: "expr \<Rightarrow> string" where
  "out_name (Col n) = n"
| "out_name (Lit v) = ''literal''"
| "out_name (Alias n e) = n"
| "out_name (BinOp bop x y) = out_name x"
| "out_name (Not e) = out_name e"
| "out_name (When c t f) = out_name t"
| "out_name (Call name []) = ''literal''"
| "out_name (Call name (e # es)) = out_name e"

text \<open>
  \<^verbatim>\<open>df.select(exprs)\<close>: one output column per expression, in the order given, named by
  the expression; two columns of one name are refused. When every expression is a
  literal the result has one row; otherwise it has the height of the table.
\<close>

definition select :: "backend \<Rightarrow> dataframe \<Rightarrow> expr list \<Rightarrow> error + dataframe" where
  "select bk df exprs =
     bind_r (each (eval_expr bk df) exprs) (\<lambda>ss.
       if \<not> distinct (map out_name exprs) then Inl BackendError
       else Inr (zip (map out_name exprs)
                     (map (rows_of (if list_all is_scalar ss then 1 else height df)) ss)))"

text \<open>\<^verbatim>\<open>df.filter(cond)\<close> keeps the rows where the predicate is true.\<close>

definition keep_rows :: "value list \<Rightarrow> dataframe \<Rightarrow> dataframe" where
  "keep_rows flags df =
     map (\<lambda>(n, vs). (n, map snd (filter (\<lambda>(m, v). m = VBool True) (zip flags vs)))) df"

definition is_mask_value :: "value \<Rightarrow> bool" where
  "is_mask_value v = (case v of VBool _ \<Rightarrow> True | VNull \<Rightarrow> True | _ \<Rightarrow> False)"

definition df_filter :: "backend \<Rightarrow> dataframe \<Rightarrow> expr \<Rightarrow> error + dataframe" where
  "df_filter bk df cond =
     bind_r (eval_expr bk df cond) (\<lambda>s.
       let flags = rows_of (height df) s
       in if list_all is_mask_value flags then Inr (keep_rows flags df) else Inl BackendError)"

text \<open>
  \<^verbatim>\<open>df.head(n)\<close> and \<^verbatim>\<open>df.slice(n)\<close>. A negative \<open>n\<close> counts from the end: all rows but the
  last \<open>-n\<close>, and the last \<open>-n\<close> rows.
\<close>

definition df_head :: "dataframe \<Rightarrow> int \<Rightarrow> dataframe" where
  "df_head df n =
     map (\<lambda>(c, vs). (c, take (if 0 \<le> n then nat n else length vs - nat (- n)) vs)) df"

definition df_slice :: "dataframe \<Rightarrow> int \<Rightarrow> dataframe" where
  "df_slice df n =
     map (\<lambda>(c, vs). (c, drop (if 0 \<le> n then nat n else length vs - nat (- n)) vs)) df"

section \<open>The mapping compiler\<close>

text \<open>
  A mapping record is a dictionary read from JSON. Its values are modelled for the JSON
  scalars (null, Booleans, integers, strings). Python's \<^verbatim>\<open>None\<close> is \<open>JNull\<close>:
  \<^verbatim>\<open>d.get(k)\<close> gives it for a missing key as for a null value.
\<close>

datatype jv = JNull | JBool bool | JInt int | JStr string

type_synonym mapping_record = "string \<Rightarrow> jv option"

definition get :: "mapping_record \<Rightarrow> string \<Rightarrow> jv" where
  "get mp k = (case mp k of None \<Rightarrow> JNull | Some v \<Rightarrow> v)"

definition get_or :: "mapping_record \<Rightarrow> string \<Rightarrow> jv \<Rightarrow> jv" where
  "get_or mp k d = (case mp k of None \<Rightarrow> d | Some v \<Rightarrow> v)"

definition truthy :: "jv \<Rightarrow> bool" where
  "truthy v = (case v of JNull \<Rightarrow> False | JBool b \<Rightarrow> b | JInt n \<Rightarrow> n \<noteq> 0 | JStr s \<Rightarrow> s \<noteq> [])"

text \<open>\<^verbatim>\<open>a or b\<close>.\<close>

definition py_or :: "jv \<Rightarrow> jv \<Rightarrow> jv" where
  "py_or a b = (if truthy a then a else b)"

text \<open>\<^verbatim>\<open>str(v)\<close>.\<close>

definition py_str :: "jv \<Rightarrow> string" where
  "py_str v = (case v of JNull \<Rightarrow> ''None'' | JBool b \<Rightarrow> (if b then ''True'' else ''False'')
               | JInt n \<Rightarrow> str_int n | JStr s \<Rightarrow> s)"

text \<open>\<^verbatim>\<open>pl.lit(v)\<close> for a value of the mapping.\<close>

definition lit_jv :: "backend \<Rightarrow> jv \<Rightarrow> error + expr" where
  "lit_jv bk v = (case v of JNull \<Rightarrow> Inr (Lit VNull) | JBool b \<Rightarrow> Inr (Lit (VBool b))
                  | JInt n \<Rightarrow> lit_int bk n | JStr s \<Rightarrow> Inr (Lit (VStr s)))"

subsection \<open>\<^verbatim>\<open>coerce_simple_transform\<close>\<close>

definition op_prefixes :: "string list" where
  "op_prefixes = [''MATH['', ''STRING['', ''LOGICAL['', ''BOOLEAN['', ''FILTER['', ''DATE['',
                  ''ARRAY['', ''DIRECT['']"

text \<open>\<^verbatim>\<open>if source_expr.dtype != pl.Utf8: source_expr = source_expr.cast(pl.Utf8)\<close>.\<close>

definition source_as_text :: "backend \<Rightarrow> expr \<Rightarrow> error + expr" where
  "source_as_text bk e =
     bind_r (dtype_is_utf8 bk e) (\<lambda>u. if u then Inr e else call bk ''cast'' [e, lit_str ''Utf8''])"

definition source_text_method :: "backend \<Rightarrow> string \<Rightarrow> expr \<Rightarrow> error + parsed" where
  "source_text_method bk name e =
     bind_r (source_as_text bk e) (\<lambda>s. bind_r (call bk name [s]) (\<lambda>r. Inr (PExpr r)))"

definition coerce_simple_transform :: "backend \<Rightarrow> string \<Rightarrow> expr \<Rightarrow> error + parsed" where
  "coerce_simple_transform bk transform source_expr =
     (let t = strip transform
      in if startswith (py_lower t) ''trns:'' then parse_transform_expression bk t
         else if list_ex (startswith t) op_prefixes then parse_transform_expression bk t
         else if t = ''to_int'' then
           bind_r (call bk ''cast'' [source_expr, lit_str ''Int64'', Lit (VBool False)]) (\<lambda>r.
             Inr (PExpr r))
         else if t = ''to_float'' then
           bind_r (call bk ''cast'' [source_expr, lit_str ''Float64'', Lit (VBool False)]) (\<lambda>r.
             Inr (PExpr r))
         else if t = ''to_str'' then
           bind_r (dtype_is_utf8 bk source_expr) (\<lambda>u.
             if u then Inr (PExpr source_expr)
             else bind_r (call bk ''cast'' [source_expr, lit_str ''Utf8'', Lit (VBool False)]) (\<lambda>r.
                    Inr (PExpr r)))
         else if t = ''to_bool'' then
           bind_r (source_as_text bk source_expr) (\<lambda>s.
           bind_r (call bk ''str.to_lowercase'' [s]) (\<lambda>l.
           bind_r (call bk ''is_in'' [l, lit_str ''1'', lit_str ''true'', lit_str ''y'', lit_str ''yes'']) (\<lambda>m.
           bind_r (call bk ''cast'' [m, lit_str ''Boolean'']) (\<lambda>r. Inr (PExpr r)))))
         else if t = ''trim'' then source_text_method bk ''str.strip_chars'' source_expr
         else if t = ''upper'' then source_text_method bk ''str.to_uppercase'' source_expr
         else if t = ''lower'' then source_text_method bk ''str.to_lowercase'' source_expr
         else case rx_shorthand ''date_format'' t of
                Some fmt \<Rightarrow>
                  (case strftime bk source_expr fmt of
                     Inr r \<Rightarrow> Inr (PExpr r)
                   | Inl _ \<Rightarrow>
                       bind_r (strptime bk source_expr ''Datetime'' fmt) (\<lambda>p.
                       bind_r (strftime bk p fmt) (\<lambda>r. Inr (PExpr r))))
              | None \<Rightarrow>
                  (case rx_shorthand ''to_date'' t of
                     Some fmt \<Rightarrow>
                       bind_r (call bk ''cast'' [source_expr, lit_str ''Utf8'']) (\<lambda>s.
                       bind_r (strptime bk s ''Date'' fmt) (\<lambda>r. Inr (PExpr r)))
                   | None \<Rightarrow> Inl ValueError))"

subsection \<open>\<^verbatim>\<open>_build_expr_for_mapping\<close>\<close>

text \<open>
  The function reads the table only for its column names. Its result is \<open>None\<close> for a
  filter mapping and the projection expression otherwise. Whatever the transform part
  raises is raised again as \<^verbatim>\<open>TransformError\<close>.
\<close>

definition as_transform_error :: "error + 'a \<Rightarrow> error + 'a" where
  "as_transform_error r = (case r of Inl _ \<Rightarrow> Inl TransformError | Inr x \<Rightarrow> Inr x)"

definition projection_of :: "parsed \<Rightarrow> expr option" where
  "projection_of p = (case p of PExpr e \<Rightarrow> Some e | PFilter _ _ _ \<Rightarrow> None)"

text \<open>The source expression: the first source column, or the default when a column is missing.\<close>

definition source_binding :: "backend \<Rightarrow> string list \<Rightarrow> jv \<Rightarrow> jv \<Rightarrow> error + expr" where
  "source_binding bk cols source dflt =
     (case source of
        JStr s \<Rightarrow>
          (let source_columns = map strip (split_comma s);
               missing_columns = filter (\<lambda>c. c \<notin> set cols) source_columns
           in if missing_columns \<noteq> [] then
                (if dflt \<noteq> JNull then lit_jv bk dflt else Inl MappingError)
              else Inr (Col (hd source_columns)))
      | _ \<Rightarrow> Inl AttributeError)"

definition apply_transform :: "backend \<Rightarrow> jv \<Rightarrow> expr \<Rightarrow> error + expr option" where
  "apply_transform bk transform src_expr =
     as_transform_error
       (case transform of
          JStr tr \<Rightarrow>
            if startswith (py_lower (strip tr)) ''trns:''
            then bind_r (parse_transform_expression bk tr) (\<lambda>p. Inr (projection_of p))
            else bind_r (coerce_simple_transform bk tr src_expr) (\<lambda>p. Inr (projection_of p))
        | _ \<Rightarrow> Inl AttributeError)"

definition build_expr_for_mapping ::
  "backend \<Rightarrow> string list \<Rightarrow> mapping_record \<Rightarrow> error + expr option" where
  "build_expr_for_mapping bk cols mp =
     (let source = py_or (get mp ''source'') (get mp ''affected_source'');
          transform = py_or (get mp ''transform'') (get mp ''trns'');
          dflt = get mp ''default''
      in if source \<noteq> JNull then
           bind_r (source_binding bk cols source dflt) (\<lambda>src_expr.
             if truthy transform then apply_transform bk transform src_expr
             else Inr (Some src_expr))
         else if dflt \<noteq> JNull \<and> transform = JNull then
           bind_r (lit_jv bk dflt) (\<lambda>e. Inr (Some e))
         else if truthy transform then apply_transform bk transform (Lit VNull)
         else if dflt = JNull then Inl MappingError
         else Inr (Some (Lit VNull)))"

section \<open>The pipeline executor\<close>

subsection \<open>\<^verbatim>\<open>_apply_filter\<close>\<close>

definition filter_action :: "backend \<Rightarrow> dataframe \<Rightarrow> string \<Rightarrow> string list \<Rightarrow> error + dataframe" where
  "filter_action bk df method args =
     (if method = ''INCLUDE_IF'' then
        bind_r (item args 0) (\<lambda>a. bind_r (parse_boolean_expr bk a) (\<lambda>cond. df_filter bk df cond))
      else if method = ''EXCLUDE_IF'' then
        bind_r (item args 0) (\<lambda>a. bind_r (parse_boolean_expr bk a) (\<lambda>cond.
          df_filter bk df (Not cond)))
      else if method = ''LIMIT'' then
        bind_r (item args 0) (\<lambda>a. bind_r (int_float a) (\<lambda>n. Inr (df_head df n)))
      else if method = ''OFFSET'' then
        bind_r (item args 0) (\<lambda>a. bind_r (int_float a) (\<lambda>n. Inr (df_slice df n)))
      else if method = ''INCLUDE'' then
        bind_r (item args 0) (\<lambda>a. bind_r (parse_boolean_expr bk a) (\<lambda>cond. df_filter bk df cond))
      else Inl TransformError)"

definition apply_filter :: "backend \<Rightarrow> dataframe \<Rightarrow> mapping_record \<Rightarrow> error + dataframe" where
  "apply_filter bk df mp =
     (let transform = strip (py_str (get_or mp ''trns'' (get_or mp ''transform'' (JStr []))))
      in as_transform_error
           (bind_r (parse_transform_expression bk transform) (\<lambda>p.
              case p of
                PFilter op method args \<Rightarrow> filter_action bk df (py_upper method) args
              | PExpr e \<Rightarrow> Inr df)))"

subsection \<open>\<^verbatim>\<open>apply_transformations\<close>\<close>

text \<open>
  The name given to a projection: \<^verbatim>\<open>mp.get('affected_target', mp.get('target', 'no_target'))\<close>.
  \<^verbatim>\<open>alias\<close> takes a string.
\<close>

definition target_name :: "mapping_record \<Rightarrow> jv" where
  "target_name mp = get_or mp ''affected_target'' (get_or mp ''target'' (JStr ''no_target''))"

definition with_alias :: "expr \<Rightarrow> jv \<Rightarrow> error + expr" where
  "with_alias e name = (case name of JStr s \<Rightarrow> Inr (Alias s e) | _ \<Rightarrow> Inl TypeError)"

text \<open>The first loop: the projection list, in mapping order, filter mappings skipped.\<close>

fun build_select_exprs :: "backend \<Rightarrow> string list \<Rightarrow> mapping_record list \<Rightarrow> error + expr list" where
  "build_select_exprs bk cols [] = Inr []"
| "build_select_exprs bk cols (mp # mps) =
     bind_r (build_expr_for_mapping bk cols mp) (\<lambda>expr.
       case expr of
         None \<Rightarrow> build_select_exprs bk cols mps
       | Some e \<Rightarrow>
           bind_r (with_alias e (target_name mp)) (\<lambda>a.
           bind_r (build_select_exprs bk cols mps) (\<lambda>rest. Inr (a # rest))))"

text \<open>
  The test of the second loop:
  \<^verbatim>\<open>mp.get('trns', '').startswith('FILTER[') or mp.get('trns', '').startswith('FILTERS[')\<close>.
\<close>

definition is_filter_mapping :: "mapping_record \<Rightarrow> error + bool" where
  "is_filter_mapping mp =
     (case get_or mp ''trns'' (JStr []) of
        JStr s \<Rightarrow> Inr (startswith s ''FILTER['' \<or> startswith s ''FILTERS['')
      | _ \<Rightarrow> Inl AttributeError)"

fun apply_filters_loop :: "backend \<Rightarrow> dataframe \<Rightarrow> mapping_record list \<Rightarrow> error + dataframe" where
  "apply_filters_loop bk df [] = Inr df"
| "apply_filters_loop bk df (mp # mps) =
     bind_r (is_filter_mapping mp) (\<lambda>f.
       if f then bind_r (apply_filter bk df mp) (\<lambda>df2. apply_filters_loop bk df2 mps)
       else apply_filters_loop bk df mps)"

definition apply_transformations ::
  "backend \<Rightarrow> dataframe \<Rightarrow> mapping_record list \<Rightarrow> error + dataframe" where
  "apply_transformations bk df mappings =
     (if mappings = [] then Inl TransformError
      else bind_r (build_select_exprs bk (columns df) mappings) (\<lambda>select_exprs.
             as_transform_error
               (bind_r (apply_filters_loop bk df mappings) (\<lambda>df2. select bk df2 select_exprs))))"

section \<open>Properties of the mapping compiler\<close>


lemma startswith_Nil [simp]: "startswith s []"
  by (simp add: startswith_def)

lemma startswith_Nil_left: "startswith [] (d # p) = False"
  by (simp add: startswith_def)





section \<open>The claims about the parsers\<close>

text \<open>
  Claim C5: a token that has the form \<^verbatim>\<open>OP[...]\<close> for a recognized operation family, or
  that starts with the prefix \<^verbatim>\<open>trns:\<close> in any case, is parsed as a nested expression and
  never treated as a bare column reference. The code does not do this. The expression
  parser reads \<^verbatim>\<open>MATH[ADD(a, b)]\<close> as the sum of two columns; the value parser, given the
  same token as an argument, returns a reference to a column with that name, and so it
  does after the upper-case prefix \<^verbatim>\<open>TRNS:\<close>. Nested in \<^verbatim>\<open>MATH[MUL(..., 2)]\<close>, the inner
  expression is therefore lost.
\<close>

theorem parse_value_unprefixed_op:
  "parse_transform_expression sample_backend ''MATH[ADD(a, b)]''
     = Inr (PExpr (BinOp Add (Col ''a'') (Col ''b'')))
   \<and> parse_value sample_backend ''MATH[ADD(a, b)]'' = Inr (PExpr (Col ''MATH[ADD(a, b)]''))
   \<and> parse_value sample_backend ''TRNS: MATH[ADD(a, b)]''
     = Inr (PExpr (Col ''TRNS: MATH[ADD(a, b)]''))
   \<and> parse_transform_expression sample_backend ''MATH[MUL(MATH[ADD(a, b)], 2)]''
     = Inr (PExpr (BinOp Mul (Col ''MATH[ADD(a, b)]'') (Lit (VInt 2))))"
  by code_simp

text \<open>
  Claim C8, as the code has it. Nothing inspects the divisor of \<^verbatim>\<open>MATH[DIV(a, b)]\<close> when
  the expression is parsed. For every expression whose method call is \<^verbatim>\<open>DIV\<close> with two
  arguments and whose dividend parses to an expression: if the divisor is the literal
  \<^verbatim>\<open>0\<close>, the result is the division by the integer literal zero; and if the divisor
  parses to any expression, the result is the division by that expression.
\<close>

theorem math_div_parses:
  assumes "rx_transform (strip e) = Some (g1, g2)" and "py_upper g1 = ''MATH''"
    and "parse_method_call ''MATH'' (strip g2) = Inr (''DIV'', [a, b])"
    and "parse_value bk a = Inr (PExpr x)"
  shows "(b = ''0'' \<longrightarrow>
           parse_transform_expression bk e = Inr (PExpr (BinOp Div x (Lit (VInt 0)))))
       \<and> (\<forall>y. parse_value bk b = Inr (PExpr y) \<longrightarrow>
           parse_transform_expression bk e = Inr (PExpr (BinOp Div x y)))"
proof -
  have gen: "parse_transform_expression bk e = Inr (PExpr (BinOp Div x y))"
    if "parse_value bk b = Inr (PExpr y)" for y
    using assms that
    by (simp add: transform_body_def dispatch_def math_family_def binary_def item_def operand_def)
  have zero: "parse_value bk ''0'' = Inr (PExpr (Lit (VInt 0)))" by code_simp
  show ?thesis using gen zero by blast
qed

theorem math_div_parses_witness:
  "parse_transform_expression sample_backend ''trns: MATH[DIV(attr('total'), 0)]''
     = Inr (PExpr (BinOp Div (Col ''total'') (Lit (VInt 0))))
   \<and> parse_transform_expression sample_backend ''MATH[DIV(total, qty)]''
     = Inr (PExpr (BinOp Div (Col ''total'') (Col ''qty'')))"
proof -
  have 1: "rx_transform (strip ''trns: MATH[DIV(attr('total'), 0)]'')
             = Some (''MATH'', ''DIV(attr('total'), 0)'')" by code_simp
  have 2: "py_upper ''MATH'' = ''MATH''" by code_simp
  have 3: "parse_method_call ''MATH'' (strip ''DIV(attr('total'), 0)'')
             = Inr (''DIV'', [''attr('total')'', ''0''])" by code_simp
  have 4: "parse_value sample_backend ''attr('total')'' = Inr (PExpr (Col ''total''))"
    by code_simp
  have 5: "rx_transform (strip ''MATH[DIV(total, qty)]'') = Some (''MATH'', ''DIV(total, qty)'')"
    by code_simp
  have 6: "parse_method_call ''MATH'' (strip ''DIV(total, qty)'') = Inr (''DIV'', [''total'', ''qty''])"
    by code_simp
  have 7: "parse_value sample_backend ''total'' = Inr (PExpr (Col ''total''))" by code_simp
  have 8: "parse_value sample_backend ''qty'' = Inr (PExpr (Col ''qty''))" by code_simp
  show ?thesis
    using math_div_parses [OF 1 2 3 4] math_div_parses [OF 5 2 6 7] 8 by blast
qed

text \<open>
  The claim as stated fails: with the literal divisor \<^verbatim>\<open>0\<close> the parser returns the
  division expression and raises nothing.
\<close>

theorem math_div_literal_zero_counterexample:
  "parse_transform_expression sample_backend ''MATH[DIV(amount, 0)]''
     = Inr (PExpr (BinOp Div (Col ''amount'') (Lit (VInt 0))))"
  by code_simp

section \<open>The claims about the mapping compiler\<close>



text \<open>
  Claim C3: the single mapping \<^verbatim>\<open>DIRECT[ATTR('c')]\<close> produces the input column \<^verbatim>\<open>c\<close>.
  The code does not do this. The method call is split into the method \<^verbatim>\<open>ATTR\<close> and the
  argument \<^verbatim>\<open>'c'\<close>, quotes included, and the value parser reads a quoted argument as a
  text literal: on a table whose column \<^verbatim>\<open>c\<close> holds 1, 2, 3 the output is one row holding
  the text \<^verbatim>\<open>c\<close>.
\<close>

theorem direct_attr_quoted:
  "parse_transform_expression sample_backend ''DIRECT[ATTR('c')]'' = Inr (PExpr (Lit (VStr ''c'')))
   \<and> apply_transformations sample_backend [(''c'', [VInt 1, VInt 2, VInt 3])]
       [map_of [(''target'', JStr ''c''), (''trns'', JStr ''DIRECT[ATTR('c')]'')]]
     = Inr [(''c'', [VStr ''c''])]"
  by code_simp

end
